theory Spec2Isabelle
  imports Complex_Main "HOL-Library.AList" "HOL-Library.Multiset"
begin

section \<open>JavaScript values as the migration service sees them\<close>

text \<open>
  Cell values arrive through \<^verbatim>\<open>response.json()\<close>, so they are JSON values; a missing
  key reads as \<^verbatim>\<open>undefined\<close>. An object is the list of its own properties in insertion
  order, each key once. Strings are lists of 8-bit code units. No value of this type is a
  \<^verbatim>\<open>Date\<close>, a function, a symbol or a bigint, so the branches of the source that test
  for those are unreachable and have no equation below.
\<close>

datatype jsval =
    JUndefined
  | JNull
  | JBool bool
  | JNum real
  | JStr string
  | JArr "jsval list"
  | JObj "(string \<times> jsval) list"

text \<open>What a \<^verbatim>\<open>throw\<close> carries: an \<^verbatim>\<open>Error\<close> of the program or a \<^verbatim>\<open>TypeError\<close> of the runtime.\<close>

datatype exn = Error string | TypeError string

text \<open>\<^verbatim>\<open>error instanceof Error ? error.message : String(error)\<close>\<close>

fun message :: "exn \<Rightarrow> string" where
  "message (Error m) = m"
| "message (TypeError m) = m"

text \<open>JavaScript truthiness, as used by \<^verbatim>\<open>||\<close>, \<^verbatim>\<open>&&\<close>, \<^verbatim>\<open>!\<close> and \<^verbatim>\<open>if\<close>.\<close>

fun truthy :: "jsval \<Rightarrow> bool" where
  "truthy JUndefined = False"
| "truthy JNull = False"
| "truthy (JBool b) = b"
| "truthy (JNum n) = (n \<noteq> 0)"
| "truthy (JStr s) = (s \<noteq> [])"
| "truthy (JArr xs) = True"
| "truthy (JObj obj) = True"

text \<open>
  Property read \<^verbatim>\<open>obj[k]\<close> on an object: an absent key reads as \<^verbatim>\<open>undefined\<close>. None of
  the keys the service reads is defined on \<^verbatim>\<open>Object.prototype\<close>.
\<close>

definition getProp :: "(string \<times> jsval) list \<Rightarrow> string \<Rightarrow> jsval" where
  "getProp obj k = (case map_of obj k of None \<Rightarrow> JUndefined | Some v \<Rightarrow> v)"

text \<open>
  \<^verbatim>\<open>String(v)\<close>. The decimal rendering of a number is the runtime's and is taken as the
  parameter \<open>ns\<close>. An array is joined with commas, \<^verbatim>\<open>null\<close> and \<^verbatim>\<open>undefined\<close> elements
  rendering as the empty string. A parsed object inherits \<^verbatim>\<open>Object.prototype.toString\<close>
  and renders as \<^verbatim>\<open>[object Object]\<close>, unless it has an own property \<^verbatim>\<open>toString\<close>: that
  property is data, not a function, and the conversion to a primitive then throws a
  \<^verbatim>\<open>TypeError\<close>.
\<close>

fun toStr :: "(real \<Rightarrow> string) \<Rightarrow> jsval \<Rightarrow> exn + string"
  and joinItems :: "(real \<Rightarrow> string) \<Rightarrow> jsval list \<Rightarrow> exn + string" where
  "toStr ns JUndefined = Inr ''undefined''"
| "toStr ns JNull = Inr ''null''"
| "toStr ns (JBool b) = Inr (if b then ''true'' else ''false'')"
| "toStr ns (JNum n) = Inr (ns n)"
| "toStr ns (JStr s) = Inr s"
| "toStr ns (JArr xs) = joinItems ns xs"
| "toStr ns (JObj obj) =
     (if ''toString'' \<in> set (map fst obj)
      then Inl (TypeError ''Cannot convert object to primitive value'')
      else Inr ''[object Object]'')"
| "joinItems ns [] = Inr []"
| "joinItems ns (x # xs) =
     (case (if x = JNull \<or> x = JUndefined then Inr [] else toStr ns x) of
        Inl e \<Rightarrow> Inl e
      | Inr s \<Rightarrow>
          (if xs = [] then Inr s
           else (case joinItems ns xs of
                   Inl e \<Rightarrow> Inl e
                 | Inr t \<Rightarrow> Inr (s @ '','' @ t))))"

definition strOf :: "(real \<Rightarrow> string) \<Rightarrow> jsval \<Rightarrow> exn + jsval" where
  "strOf ns v = (case toStr ns v of Inl e \<Rightarrow> Inl e | Inr s \<Rightarrow> Inr (JStr s))"

text \<open>The operands of a chain \<^verbatim>\<open>a || b || c\<close>: the first truthy one, if any.\<close>

fun firstTruthy :: "jsval list \<Rightarrow> jsval option" where
  "firstTruthy [] = None"
| "firstTruthy (v # vs) = (if truthy v then Some v else firstTruthy vs)"

section \<open>Value sanitization (MigrationService.sanitizeValue)\<close>

text \<open>
  \<^verbatim>\<open>String.prototype.trim\<close> on 8-bit code units: TAB, LF, VT, FF, CR, SPACE and NBSP
  are the white space and line terminators in that range.
\<close>

definition isWhiteSpace :: "char \<Rightarrow> bool" where
  "isWhiteSpace c = ((of_char c :: nat) \<in> {9, 10, 11, 12, 13, 32, 160})"

definition trim :: "string \<Rightarrow> string" where
  "trim s = rev (dropWhile isWhiteSpace (rev (dropWhile isWhiteSpace s)))"

text \<open>
  \<^verbatim>\<open>value.replace(/^```|```$/g, '').trim()\<close>: the global replace removes a leading fence,
  then a trailing fence of what is left.
\<close>

definition cleanBackticks :: "string \<Rightarrow> string" where
  "cleanBackticks s =
     (let s1 = (if take 3 s = ''```'' then drop 3 s else s);
          s2 = (if 3 \<le> length s1 \<and> drop (length s1 - 3) s1 = ''```''
                then take (length s1 - 3) s1 else s1)
      in trim s2)"

fun sanitizeValue :: "(real \<Rightarrow> string) \<Rightarrow> jsval \<Rightarrow> exn + jsval"
  and sanitizeItems :: "(real \<Rightarrow> string) \<Rightarrow> jsval list \<Rightarrow> exn + jsval list" where
  "sanitizeValue ns JUndefined = Inr JNull"
| "sanitizeValue ns JNull = Inr JNull"
| "sanitizeValue ns (JBool b) = Inr (JBool b)"
| "sanitizeValue ns (JNum n) = Inr (JNum n)"
| "sanitizeValue ns (JStr s) = Inr (JStr (cleanBackticks s))"
| "sanitizeValue ns (JArr xs) =
     (case sanitizeItems ns xs of
        Inl e \<Rightarrow> Inl e
      | Inr ys \<Rightarrow> Inr (JArr (filter (\<lambda>item. item \<noteq> JNull \<and> item \<noteq> JUndefined) ys)))"
| "sanitizeValue ns (JObj obj) =
     (if getProp obj ''@type'' = JStr ''MonetaryAmount'' then
        Inr (case getProp obj ''amount'' of JNum n \<Rightarrow> JNum n | _ \<Rightarrow> JNum 0)
      else if getProp obj ''@type'' = JStr ''StructuredValue'' then
        (case firstTruthy [getProp obj ''name'', getProp obj ''url'', getProp obj ''displayText''] of
           Some v \<Rightarrow> Inr v
         | None \<Rightarrow> strOf ns (JObj obj))
      else if getProp obj ''@type'' = JStr ''Person'' then
        (case firstTruthy [getProp obj ''email'', getProp obj ''name''] of
           Some v \<Rightarrow> Inr v
         | None \<Rightarrow> strOf ns (JObj obj))
      else if getProp obj ''@type'' = JStr ''ImageObject'' then
        (case firstTruthy [getProp obj ''url'', getProp obj ''name''] of
           Some v \<Rightarrow> Inr v
         | None \<Rightarrow> strOf ns (JObj obj))
      else if truthy (getProp obj ''name'') then strOf ns (getProp obj ''name'')
      else if truthy (getProp obj ''url'') then strOf ns (getProp obj ''url'')
      else if truthy (getProp obj ''displayText'') then strOf ns (getProp obj ''displayText'')
      else if truthy (getProp obj ''text'') then strOf ns (getProp obj ''text'')
      else strOf ns (JObj obj))"
| "sanitizeItems ns [] = Inr []"
| "sanitizeItems ns (x # xs) =
     (case sanitizeValue ns x of
        Inl e \<Rightarrow> Inl e
      | Inr y \<Rightarrow>
          (case sanitizeItems ns xs of
             Inl e \<Rightarrow> Inl e
           | Inr ys \<Rightarrow> Inr (y # ys)))"

text \<open>
  A value none of whose objects has an own \<^verbatim>\<open>toString\<close> property: on such a value
  \<^verbatim>\<open>String\<close> cannot throw.
\<close>

fun plainValue :: "jsval \<Rightarrow> bool" where
  "plainValue (JArr xs) = (\<forall>x \<in> set xs. plainValue x)"
| "plainValue (JObj obj) =
     (''toString'' \<notin> set (map fst obj) \<and> (\<forall>kv \<in> set obj. plainValue (snd kv)))"
| "plainValue v = True"

section \<open>Schema mapping (TableService.createColumnMapping)\<close>

text \<open>\<^verbatim>\<open>CodaColumn\<close>: the fields the service reads; \<open>formatType\<close> is \<^verbatim>\<open>format.type\<close>.\<close>

record CodaColumn =
  columnId :: string
  columnName :: string
  display :: bool
  calculated :: bool
  formatType :: string

record ColumnMapping =
  sourceColumn :: CodaColumn
  destinationColumn :: CodaColumn
  transform :: "(jsval \<Rightarrow> exn + jsval) option"

text \<open>
  \<^verbatim>\<open>MigrationConfig\<close>. The two \<^verbatim>\<open>Record\<close>s are association lists; \<open>transformations\<close> is
  optional and maps a source column name to its \<^verbatim>\<open>{from, to}\<close> pair. The storage
  credentials play no part in any decision and are left out.
\<close>

record MigrationConfig =
  sourceDocId :: string
  sourceTableId :: string
  destinationDocId :: string
  destinationTableId :: string
  bucket :: string
  endpoint :: string
  migrationFolder :: string
  batchSize :: nat
  insertBatchSize :: nat
  columnMappings :: "(string \<times> string) list"
  skipColumns :: "string list"
  transformations :: "(string \<times> string \<times> string) list option"

definition isString :: "jsval \<Rightarrow> bool" where
  "isString v = (case v of JStr s \<Rightarrow> True | _ \<Rightarrow> False)"

text \<open>
  The names every plain object inherits from \<^verbatim>\<open>Object.prototype\<close>: indexing a parsed
  configuration object with one of them yields the inherited member, a truthy value, when
  the object has no own property of that name.
\<close>

definition objectPrototypeMembers :: "string list" where
  "objectPrototypeMembers =
     [''constructor'', ''__proto__'', ''hasOwnProperty'', ''isPrototypeOf'',
      ''propertyIsEnumerable'', ''toLocaleString'', ''toString'', ''valueOf'',
      ''__defineGetter__'', ''__defineSetter__'', ''__lookupGetter__'', ''__lookupSetter__'']"

text \<open>
  \<^verbatim>\<open>config.transformations?.[sourceCol.name]\<close>: the configured \<^verbatim>\<open>{from, to}\<close> pair; for an
  inherited member both fields read as \<^verbatim>\<open>undefined\<close>, written \<open>None\<close>. The outer \<open>None\<close>
  is a falsy lookup.
\<close>

definition configuredTransformation ::
  "MigrationConfig \<Rightarrow> string \<Rightarrow> (string option \<times> string option) option" where
  "configuredTransformation config name =
     (case transformations config of
        None \<Rightarrow> None
      | Some ts \<Rightarrow>
          (case map_of ts name of
             Some (from, to) \<Rightarrow> Some (Some from, Some to)
           | None \<Rightarrow> if name \<in> set objectPrototypeMembers then Some (None, None) else None))"

text \<open>
  \<^verbatim>\<open>createTransform\<close>: the closure of a configured transformation (which hands every value
  back), else the closure of the automatic conversion when the declared types differ,
  else \<^verbatim>\<open>undefined\<close>.
\<close>

definition createTransform ::
  "(real \<Rightarrow> string) \<Rightarrow> CodaColumn \<Rightarrow> CodaColumn \<Rightarrow> MigrationConfig
     \<Rightarrow> (jsval \<Rightarrow> exn + jsval) option" where
  "createTransform ns sourceCol destCol config =
     (case configuredTransformation config (columnName sourceCol) of
        Some (from, to) \<Rightarrow>
          Some (\<lambda>value.
            if from = Some ''select'' \<and> to = Some ''lookup'' \<and> truthy value \<and> isString value
            then Inr value
            else Inr value)
      | None \<Rightarrow>
          if formatType sourceCol \<noteq> formatType destCol then
            Some (\<lambda>value.
              if formatType destCol = ''text'' \<and> value \<noteq> JNull \<and> value \<noteq> JUndefined
              then strOf ns value
              else if formatType destCol = ''link'' \<and> isString value then Inr value
              else Inr value)
          else None)"

text \<open>
  The loop of \<^verbatim>\<open>createColumnMapping\<close> over the source columns. A \<^verbatim>\<open>continue\<close> is the
  recursive call without a new mapping; \<^verbatim>\<open>!destColumnName\<close> holds for an absent key and
  for the empty string. For a source column named like an inherited member and not
  configured, \<^verbatim>\<open>config.columnMappings[name]\<close> is that member; no destination column's name
  equals it, so the column is dropped all the same, as for an absent key.
\<close>

fun mapColumns ::
  "(real \<Rightarrow> string) \<Rightarrow> MigrationConfig \<Rightarrow> CodaColumn list \<Rightarrow> CodaColumn list
     \<Rightarrow> ColumnMapping list" where
  "mapColumns ns config destColumns [] = []"
| "mapColumns ns config destColumns (sourceCol # rest) =
     (if calculated sourceCol then mapColumns ns config destColumns rest
      else if columnName sourceCol \<in> set (skipColumns config)
        then mapColumns ns config destColumns rest
      else
        (case map_of (columnMappings config) (columnName sourceCol) of
           None \<Rightarrow> mapColumns ns config destColumns rest
         | Some destColumnName \<Rightarrow>
             if destColumnName = [] then mapColumns ns config destColumns rest
             else
               (case find (\<lambda>dc. columnName dc = destColumnName \<and> \<not> calculated dc)
                       destColumns of
                  Some destCol \<Rightarrow>
                    \<lparr> sourceColumn = sourceCol,
                      destinationColumn = destCol,
                      transform = createTransform ns sourceCol destCol config \<rparr>
                    # mapColumns ns config destColumns rest
                | None \<Rightarrow> mapColumns ns config destColumns rest)))"

section \<open>The outside world: remote services and the local disk\<close>

text \<open>\<^verbatim>\<open>ExpenseItem\<close>: a table row, with the fields the service reads.\<close>

record Row =
  rowId :: string
  rowName :: string
  rowValues :: "(string \<times> jsval) list"

text \<open>Every request that leaves the process.\<close>

datatype net_call =
    GetTable string string
  | GetColumns string string
  | GetRows string string nat "string option"
  | GetRowsByIds string string "string list"
  | InsertRows string string "(string \<times> jsval) list list"
  | Download jsval
  | PutObject string

text \<open>
  What a request comes back with: the call rejects with a message, the response is not
  \<^verbatim>\<open>ok\<close> (status, status text, body text), or it carries a parsed body.
\<close>

datatype 'a reply = Threw string | NotOk nat string string | Replied 'a

text \<open>The ledger file: absent, unreadable or unparsable, or parsed with its \<^verbatim>\<open>failedRowIds\<close>.\<close>

datatype ledgerFile = Missing | Unreadable string | Ledger "string list option"

text \<open>
  The environment fixes how the outside answers. A remote answer may depend on every
  request issued before it, so each one takes the log so far. \<open>numToString\<close>,
  \<open>localeCompare\<close> and \<open>now\<close> are the runtime's \<^verbatim>\<open>Number.prototype.toString\<close>,
  \<^verbatim>\<open>String.prototype.localeCompare\<close> and \<^verbatim>\<open>Date.now()\<close>. \<open>writeFails\<close> and \<open>copyFails\<close> give the
  message of the system error a file operation ends with, if it fails; \<open>renderFails\<close>
  gives the message with which the image and document libraries reject the file at a path.
\<close>

record env =
  numToString :: "real \<Rightarrow> string"
  localeCompare :: "string \<Rightarrow> string \<Rightarrow> int"
  now :: real
  tableReply :: "net_call list \<Rightarrow> string \<Rightarrow> string \<Rightarrow> unit reply"
  columnsReply :: "net_call list \<Rightarrow> string \<Rightarrow> string \<Rightarrow> CodaColumn list reply"
  rowsReply ::
    "net_call list \<Rightarrow> string \<Rightarrow> string \<Rightarrow> nat \<Rightarrow> string option
       \<Rightarrow> (Row list \<times> string option) reply"
  rowsByIdsReply ::
    "net_call list \<Rightarrow> string \<Rightarrow> string \<Rightarrow> string list \<Rightarrow> Row list option reply"
  insertReply ::
    "net_call list \<Rightarrow> (string \<times> jsval) list list \<Rightarrow> string list option reply"
  downloadReply :: "net_call list \<Rightarrow> jsval \<Rightarrow> unit reply"
  putObjectFails :: "net_call list \<Rightarrow> string \<Rightarrow> string option"
  writeFails :: "string \<Rightarrow> string option"
  copyFails :: "string \<Rightarrow> string \<Rightarrow> string option"
  renderFails :: "string \<Rightarrow> string option"
  readLedger :: "string \<Rightarrow> ledgerFile"

text \<open>The state a run changes: the requests issued so far and the paths on the local disk.\<close>

record world =
  netLog :: "net_call list"
  files :: "string list"

definition logCall :: "net_call \<Rightarrow> world \<Rightarrow> world" where
  "logCall c w = w\<lparr>netLog := netLog w @ [c]\<rparr>"

text \<open>\<^verbatim>\<open>String(error)\<close> of a thrown error, as the templates \<^verbatim>\<open>${error}\<close> render it.\<close>

fun showExn :: "exn \<Rightarrow> string" where
  "showExn (Error m) = ''Error: '' @ m"
| "showExn (TypeError m) = ''TypeError: '' @ m"

definition httpError :: "(real \<Rightarrow> string) \<Rightarrow> nat \<Rightarrow> string \<Rightarrow> string \<Rightarrow> string" where
  "httpError ns status statusText errorText =
     ''HTTP '' @ ns (real status) @ '': '' @ statusText @ [CHR 0x0A] @ ''Response: '' @ errorText"

section \<open>Table access (TableService)\<close>

definition getTable :: "env \<Rightarrow> string \<Rightarrow> string \<Rightarrow> world \<Rightarrow> (exn + unit) \<times> world" where
  "getTable e docId tableId w =
     (case tableReply e (netLog w) docId tableId of
        Threw m \<Rightarrow> (Inl (Error m), logCall (GetTable docId tableId) w)
      | NotOk status statusText errorText \<Rightarrow>
          (Inl (Error (httpError (numToString e) status statusText errorText)),
           logCall (GetTable docId tableId) w)
      | Replied table \<Rightarrow> (Inr (), logCall (GetTable docId tableId) w))"

text \<open>
  The comparator of \<^verbatim>\<open>getTableColumns\<close> and the stable sort \<^verbatim>\<open>Array.prototype.sort\<close>
  performs with it.
\<close>

definition compareColumns :: "env \<Rightarrow> CodaColumn \<Rightarrow> CodaColumn \<Rightarrow> int" where
  "compareColumns e a b =
     (if display a \<and> \<not> display b then - 1
      else if \<not> display a \<and> display b then 1
      else localeCompare e (columnName a) (columnName b))"

fun insertSorted :: "('a \<Rightarrow> 'a \<Rightarrow> int) \<Rightarrow> 'a \<Rightarrow> 'a list \<Rightarrow> 'a list" where
  "insertSorted cmp x [] = [x]"
| "insertSorted cmp x (y # ys) =
     (if cmp x y \<le> 0 then x # y # ys else y # insertSorted cmp x ys)"

definition stableSort :: "('a \<Rightarrow> 'a \<Rightarrow> int) \<Rightarrow> 'a list \<Rightarrow> 'a list" where
  "stableSort cmp xs = foldr (insertSorted cmp) xs []"

definition getTableColumns ::
  "env \<Rightarrow> string \<Rightarrow> string \<Rightarrow> world \<Rightarrow> (exn + CodaColumn list) \<times> world" where
  "getTableColumns e docId tableId w =
     (case columnsReply e (netLog w) docId tableId of
        Threw m \<Rightarrow> (Inl (Error m), logCall (GetColumns docId tableId) w)
      | NotOk status statusText errorText \<Rightarrow>
          (Inl (Error (httpError (numToString e) status statusText errorText)),
           logCall (GetColumns docId tableId) w)
      | Replied items \<Rightarrow>
          (Inr (stableSort (compareColumns e) items), logCall (GetColumns docId tableId) w))"

text \<open>
  \<^verbatim>\<open>createColumnMapping\<close>: both column requests are issued before either is awaited
  (\<^verbatim>\<open>Promise.all\<close>); the first rejection, in argument order, is the one thrown.
\<close>

definition createColumnMapping ::
  "env \<Rightarrow> MigrationConfig \<Rightarrow> world \<Rightarrow> (exn + ColumnMapping list) \<times> world" where
  "createColumnMapping e config w =
     (let (src, w1) = getTableColumns e (sourceDocId config) (sourceTableId config) w;
          (dst, w2) = getTableColumns e (destinationDocId config) (destinationTableId config) w1
      in case src of
           Inl err \<Rightarrow> (Inl err, w2)
         | Inr sourceColumns \<Rightarrow>
             (case dst of
                Inl err \<Rightarrow> (Inl err, w2)
              | Inr destColumns \<Rightarrow>
                  (Inr (mapColumns (numToString e) config destColumns sourceColumns), w2)))"

text \<open>\<^verbatim>\<open>Array.prototype.slice(i, j)\<close> for \<open>i \<le> j\<close>.\<close>

definition slice :: "nat \<Rightarrow> nat \<Rightarrow> 'a list \<Rightarrow> 'a list" where
  "slice i j xs = take (j - i) (drop i xs)"

text \<open>
  \<^verbatim>\<open>getSpecificRows\<close>: the loop over the id list in steps of 20, with the loop variable
  \<open>i\<close> and the accumulated \<open>rows\<close>. A rejected request, a response that is not \<^verbatim>\<open>ok\<close>
  and a body without an \<^verbatim>\<open>items\<close> array all go on to the next chunk.
\<close>

function getSpecificRowsLoop ::
  "env \<Rightarrow> string \<Rightarrow> string \<Rightarrow> string list \<Rightarrow> nat \<Rightarrow> Row list \<Rightarrow> world
     \<Rightarrow> Row list \<times> world" where
  "getSpecificRowsLoop e docId tableId rowIds i rows w =
     (if i < length rowIds then
        (let batchIds = slice i (i + 20) rowIds;
             w' = logCall (GetRowsByIds docId tableId batchIds) w
         in case rowsByIdsReply e (netLog w) docId tableId batchIds of
              Threw m \<Rightarrow> getSpecificRowsLoop e docId tableId rowIds (i + 20) rows w'
            | NotOk status statusText errorText \<Rightarrow>
                getSpecificRowsLoop e docId tableId rowIds (i + 20) rows w'
            | Replied None \<Rightarrow> getSpecificRowsLoop e docId tableId rowIds (i + 20) rows w'
            | Replied (Some items) \<Rightarrow>
                getSpecificRowsLoop e docId tableId rowIds (i + 20)
                  (rows @ filter (\<lambda>item. rowId item \<in> set batchIds) items) w')
      else (rows, w))"
  by pat_completeness auto
termination
  by (relation "measure (\<lambda>(e, docId, tableId, rowIds, i, rows, w). length rowIds - i)") auto

declare getSpecificRowsLoop.simps [simp del]

definition getSpecificRows ::
  "env \<Rightarrow> string \<Rightarrow> string \<Rightarrow> string list \<Rightarrow> world \<Rightarrow> Row list \<times> world" where
  "getSpecificRows e docId tableId rowIds w = getSpecificRowsLoop e docId tableId rowIds 0 [] w"

text \<open>
  \<^verbatim>\<open>getAllTableRows\<close>: the \<^verbatim>\<open>do ... while (pageToken)\<close> loop. It ends when a page comes
  without a next token (or with an empty one) and runs forever against a service that
  always sends one: not returning is the value \<open>None\<close>. A failed page request is not
  caught and ends the sweep with its error.
\<close>

partial_function (option) getAllTableRowsLoop ::
  "env \<Rightarrow> string \<Rightarrow> string \<Rightarrow> nat \<Rightarrow> string option \<Rightarrow> Row list \<Rightarrow> world
     \<Rightarrow> ((exn + Row list) \<times> world) option" where
  "getAllTableRowsLoop e docId tableId limit pageToken allRows w =
     (case rowsReply e (netLog w) docId tableId limit pageToken of
        Threw m \<Rightarrow> Some (Inl (Error m), logCall (GetRows docId tableId limit pageToken) w)
      | NotOk status statusText errorText \<Rightarrow>
          Some (Inl (Error (httpError (numToString e) status statusText errorText)),
                logCall (GetRows docId tableId limit pageToken) w)
      | Replied page \<Rightarrow>
          (case snd page of
             None \<Rightarrow>
               Some (Inr (allRows @ fst page), logCall (GetRows docId tableId limit pageToken) w)
           | Some token \<Rightarrow>
               if token = []
               then Some (Inr (allRows @ fst page),
                          logCall (GetRows docId tableId limit pageToken) w)
               else getAllTableRowsLoop e docId tableId limit (Some token) (allRows @ fst page)
                      (logCall (GetRows docId tableId limit pageToken) w)))"

declare getAllTableRowsLoop.simps [code]

definition getAllTableRows ::
  "env \<Rightarrow> string \<Rightarrow> string \<Rightarrow> nat \<Rightarrow> world \<Rightarrow> ((exn + Row list) \<times> world) option" where
  "getAllTableRows e docId tableId limit w =
     getAllTableRowsLoop e docId tableId limit None [] w"

section \<open>Attachment files (FileService)\<close>

record ProcessedFile =
  originalName :: string
  pdfPath :: string
  uploadedUrl :: string

text \<open>
  The scratch and the staging directory, relative to the working directory, and
  \<^verbatim>\<open>path.join\<close> of a directory and a plain file name.
\<close>

definition tempDir :: string where
  "tempDir = ''temp''"

definition uploadDir :: string where
  "uploadDir = ''upload''"

definition pathJoin :: "string \<Rightarrow> string \<Rightarrow> string" where
  "pathJoin dir fileName = dir @ ''/'' @ fileName"

text \<open>The last component of a path, and the index of its last dot.\<close>

definition lastComponent :: "string \<Rightarrow> string" where
  "lastComponent p = rev (takeWhile (\<lambda>c. c \<noteq> CHR ''/'') (rev p))"

definition lastIndexOfDot :: "string \<Rightarrow> nat option" where
  "lastIndexOfDot s =
     (if CHR ''.'' \<in> set s
      then Some (length s - 1 - length (takeWhile (\<lambda>c. c \<noteq> CHR ''.'') (rev s)))
      else None)"

text \<open>
  \<^verbatim>\<open>path.extname\<close>: from the last dot of the last component, unless that dot opens the
  component or the component is \<^verbatim>\<open>..\<close>.
\<close>

definition extname :: "string \<Rightarrow> string" where
  "extname p =
     (let b = lastComponent p
      in case lastIndexOfDot b of
           None \<Rightarrow> []
         | Some i \<Rightarrow> if i = 0 \<or> b = ''..'' then [] else drop i b)"

text \<open>\<^verbatim>\<open>path.basename(p, ext)\<close>: the last component, without \<open>ext\<close> when it ends with it.\<close>

definition basename :: "string \<Rightarrow> string \<Rightarrow> string" where
  "basename p ext =
     (let b = lastComponent p
      in if ext \<noteq> [] \<and> length ext < length b \<and> drop (length b - length ext) b = ext
         then take (length b - length ext) b
         else b)"

text \<open>\<^verbatim>\<open>toLowerCase\<close> on 8-bit code units: A to Z, and the accented capitals.\<close>

definition lowerChar :: "char \<Rightarrow> char" where
  "lowerChar c =
     (let n = (of_char c :: nat)
      in if (65 \<le> n \<and> n \<le> 90) \<or> (192 \<le> n \<and> n \<le> 222 \<and> n \<noteq> 215)
         then char_of (n + 32) else c)"

definition toLowerCase :: "string \<Rightarrow> string" where
  "toLowerCase s = map lowerChar s"

text \<open>
  Local file operations. \<^verbatim>\<open>writeFileSync\<close> creates or overwrites a path;
  \<^verbatim>\<open>copyFileSync\<close> and \<^verbatim>\<open>readFileSync\<close> need their source to exist and fail with
  \<^verbatim>\<open>ENOENT\<close> otherwise. \<^verbatim>\<open>unlinkSync\<close> of an existing path is taken to succeed, so
  \<^verbatim>\<open>cleanup\<close> removes every listed path that exists.
\<close>

definition quoted :: "string \<Rightarrow> string" where
  "quoted s = [CHR 0x27] @ s @ [CHR 0x27]"

definition noSuchFile :: "string \<Rightarrow> string" where
  "noSuchFile path = ''ENOENT: no such file or directory, open '' @ quoted path"

definition writeFile :: "env \<Rightarrow> string \<Rightarrow> world \<Rightarrow> (exn + unit) \<times> world" where
  "writeFile e path w =
     (case writeFails e path of
        Some m \<Rightarrow> (Inl (Error m), w)
      | None \<Rightarrow> (Inr (), w\<lparr>files := List.insert path (files w)\<rparr>))"

definition copyFile :: "env \<Rightarrow> string \<Rightarrow> string \<Rightarrow> world \<Rightarrow> (exn + unit) \<times> world" where
  "copyFile e src dst w =
     (if src \<notin> set (files w) then
        (Inl (Error (''ENOENT: no such file or directory, copyfile '' @ quoted src
                       @ '' -> '' @ quoted dst)), w)
      else
        (case copyFails e src dst of
           Some m \<Rightarrow> (Inl (Error m), w)
         | None \<Rightarrow> (Inr (), w\<lparr>files := List.insert dst (files w)\<rparr>)))"

definition cleanup :: "string list \<Rightarrow> world \<Rightarrow> world" where
  "cleanup filePaths w = w\<lparr>files := filter (\<lambda>p. p \<notin> set filePaths) (files w)\<rparr>"

definition cleanupProcessedFile :: "ProcessedFile \<Rightarrow> world \<Rightarrow> world" where
  "cleanupProcessedFile processedFile w = cleanup [pdfPath processedFile] w"

definition inDirectory :: "string \<Rightarrow> string \<Rightarrow> bool" where
  "inDirectory dir p = (take (length dir + 1) p = dir @ ''/'')"

definition cleanupAllDirectories :: "world \<Rightarrow> world" where
  "cleanupAllDirectories w =
     w\<lparr>files := filter (\<lambda>p. \<not> inDirectory tempDir p \<and> \<not> inDirectory uploadDir p) (files w)\<rparr>"

text \<open>
  How the runtime names a value that is not a string in the message of an argument type
  error.
\<close>

fun received :: "(real \<Rightarrow> string) \<Rightarrow> jsval \<Rightarrow> string" where
  "received ns JUndefined = ''undefined''"
| "received ns JNull = ''null''"
| "received ns (JBool b) = ''type boolean ('' @ (if b then ''true'' else ''false'') @ '')''"
| "received ns (JNum n) = ''type number ('' @ ns n @ '')''"
| "received ns (JStr s) = ''type string ('' @ quoted s @ '')''"
| "received ns (JArr xs) = ''an instance of Array''"
| "received ns (JObj obj) = ''an instance of Object''"

text \<open>
  \<^verbatim>\<open>downloadFile\<close>. The request is issued first; \<^verbatim>\<open>path.join\<close> then rejects a file name
  that is not a string.
\<close>

definition downloadFile :: "env \<Rightarrow> jsval \<Rightarrow> jsval \<Rightarrow> world \<Rightarrow> (exn + string) \<times> world" where
  "downloadFile e url filename w =
     (case downloadReply e (netLog w) url of
        Threw m \<Rightarrow> (Inl (Error m), logCall (Download url) w)
      | NotOk status statusText errorText \<Rightarrow>
          (Inl (Error (''Failed to download file: '' @ statusText)), logCall (Download url) w)
      | Replied body \<Rightarrow>
          (case filename of
             JStr f \<Rightarrow>
               (case writeFile e (pathJoin tempDir f) (logCall (Download url) w) of
                  (Inl err, w') \<Rightarrow> (Inl err, w')
                | (Inr u, w') \<Rightarrow> (Inr (pathJoin tempDir f), w'))
           | _ \<Rightarrow>
               (Inl (TypeError
                       (''The '' @ [CHR 0x22] @ ''path'' @ [CHR 0x22]
                        @ '' argument must be of type string. Received ''
                        @ received (numToString e) filename)),
                logCall (Download url) w)))"

definition imageToPdf :: "env \<Rightarrow> string \<Rightarrow> string \<Rightarrow> world \<Rightarrow> (exn + unit) \<times> world" where
  "imageToPdf e imagePath outputPath w =
     (if imagePath \<notin> set (files w)
      then (Inl (Error (''Input file is missing: '' @ imagePath)), w)
      else
        (case renderFails e imagePath of
           Some m \<Rightarrow> (Inl (Error m), w)
         | None \<Rightarrow> writeFile e outputPath w))"

definition createPlaceholderPdf ::
  "env \<Rightarrow> string \<Rightarrow> string \<Rightarrow> world \<Rightarrow> (exn + unit) \<times> world" where
  "createPlaceholderPdf e originalPath outputPath w =
     (case renderFails e originalPath of
        Some m \<Rightarrow> (Inl (Error m), w)
      | None \<Rightarrow> writeFile e outputPath w)"

definition convertToPdf :: "env \<Rightarrow> string \<Rightarrow> world \<Rightarrow> (exn + string) \<times> world" where
  "convertToPdf e filePath w =
     (let ext = toLowerCase (extname filePath);
          outputPath = pathJoin tempDir (basename filePath ext @ ''.pdf'')
      in if ext = ''.pdf'' then
           (if filePath = outputPath then (Inr outputPath, w)
            else (case copyFile e filePath outputPath w of
                    (Inl err, w') \<Rightarrow> (Inl err, w')
                  | (Inr u, w') \<Rightarrow> (Inr outputPath, w')))
         else if ext \<in> set [''.jpg'', ''.jpeg'', ''.png'', ''.gif'', ''.bmp'', ''.webp''] then
           (case imageToPdf e filePath outputPath w of
              (Inl err, w') \<Rightarrow> (Inl err, w')
            | (Inr u, w') \<Rightarrow> (Inr outputPath, w'))
         else
           (case createPlaceholderPdf e filePath outputPath w of
              (Inl err, w') \<Rightarrow> (Inl err, w')
            | (Inr u, w') \<Rightarrow> (Inr outputPath, w')))"

text \<open>
  The loop of \<^verbatim>\<open>mergePdfs\<close> that reads and loads each document in turn: the error of the
  first one that is missing or rejected, if any.
\<close>

fun loadPdfs :: "env \<Rightarrow> world \<Rightarrow> string list \<Rightarrow> exn option" where
  "loadPdfs e w [] = None"
| "loadPdfs e w (p # rest) =
     (if p \<notin> set (files w) then Some (Error (noSuchFile p))
      else
        (case renderFails e p of
           Some m \<Rightarrow> Some (Error m)
         | None \<Rightarrow> loadPdfs e w rest))"

definition mergePdfs :: "env \<Rightarrow> string list \<Rightarrow> string \<Rightarrow> world \<Rightarrow> (exn + string) \<times> world" where
  "mergePdfs e pdfPaths outputPath w =
     (case pdfPaths of
        [] \<Rightarrow> (Inl (Error ''No PDF files to merge''), w)
      | [single] \<Rightarrow>
          (case copyFile e single outputPath w of
             (Inl err, w') \<Rightarrow> (Inl err, w')
           | (Inr u, w') \<Rightarrow> (Inr outputPath, w'))
      | _ \<Rightarrow>
          (case loadPdfs e w pdfPaths of
             Some err \<Rightarrow> (Inl err, w)
           | None \<Rightarrow>
               (case writeFile e outputPath w of
                  (Inl err, w') \<Rightarrow> (Inl err, w')
                | (Inr u, w') \<Rightarrow> (Inr outputPath, w'))))"

text \<open>
  The two loops of \<^verbatim>\<open>processAttachments\<close>. Each returns the error that ended it, if
  any, with the list accumulated until then: the \<^verbatim>\<open>catch\<close> block reads both lists.
\<close>

fun downloadAll ::
  "env \<Rightarrow> (string \<times> jsval) list list \<Rightarrow> nat \<Rightarrow> string list \<Rightarrow> world
     \<Rightarrow> exn option \<times> string list \<times> world" where
  "downloadAll e [] i downloadedFiles w = (None, downloadedFiles, w)"
| "downloadAll e (attachment # rest) i downloadedFiles w =
     (let fileName =
            (if truthy (getProp attachment ''name'') then getProp attachment ''name''
             else JStr (''attachment_'' @ numToString e (real (i + 1))))
      in case downloadFile e (getProp attachment ''url'') fileName w of
           (Inl err, w') \<Rightarrow> (Some err, downloadedFiles, w')
         | (Inr downloadedPath, w') \<Rightarrow>
             downloadAll e rest (i + 1) (downloadedFiles @ [downloadedPath]) w')"

fun convertAll ::
  "env \<Rightarrow> string list \<Rightarrow> string list \<Rightarrow> world \<Rightarrow> exn option \<times> string list \<times> world" where
  "convertAll e [] convertedPdfs w = (None, convertedPdfs, w)"
| "convertAll e (filePath # rest) convertedPdfs w =
     (case convertToPdf e filePath w of
        (Inl err, w') \<Rightarrow> (Some err, convertedPdfs, w')
      | (Inr pdf, w') \<Rightarrow> convertAll e rest (convertedPdfs @ [pdf]) w')"

text \<open>
  \<^verbatim>\<open>processAttachments\<close>. Every \<open>Inl\<close> below passes through the \<^verbatim>\<open>catch\<close> block, which
  removes the downloaded and the converted files and rethrows.
\<close>

definition processAttachments ::
  "env \<Rightarrow> (string \<times> jsval) list list \<Rightarrow> string \<Rightarrow> world
     \<Rightarrow> (exn + ProcessedFile option) \<times> world" where
  "processAttachments e attachments baseFileName w =
     (if attachments = [] then (Inr None, w)
      else
        (case downloadAll e attachments 0 [] w of
           (Some err, downloadedFiles, w1) \<Rightarrow> (Inl err, cleanup (downloadedFiles @ []) w1)
         | (None, downloadedFiles, w1) \<Rightarrow>
             (case convertAll e downloadedFiles [] w1 of
                (Some err, convertedPdfs, w2) \<Rightarrow>
                  (Inl err, cleanup (downloadedFiles @ convertedPdfs) w2)
              | (None, convertedPdfs, w2) \<Rightarrow>
                  (let tempFinalPdfPath = pathJoin tempDir (baseFileName @ ''.pdf'')
                   in case (case convertedPdfs of
                              [single] \<Rightarrow>
                                (if single \<noteq> tempFinalPdfPath
                                 then copyFile e single tempFinalPdfPath w2
                                 else (Inr (), w2))
                            | _ \<Rightarrow>
                                (case mergePdfs e convertedPdfs tempFinalPdfPath w2 of
                                   (Inl err, w') \<Rightarrow> (Inl err, w')
                                 | (Inr out, w') \<Rightarrow> (Inr (), w'))) of
                        (Inl err, w3) \<Rightarrow>
                          (Inl err, cleanup (downloadedFiles @ convertedPdfs) w3)
                      | (Inr u, w3) \<Rightarrow>
                          (let uploadPdfPath = pathJoin uploadDir (baseFileName @ ''.pdf'')
                           in case copyFile e tempFinalPdfPath uploadPdfPath w3 of
                                (Inl err, w4) \<Rightarrow>
                                  (Inl err, cleanup (downloadedFiles @ convertedPdfs) w4)
                              | (Inr u', w4) \<Rightarrow>
                                  (Inr (Some \<lparr> originalName = baseFileName,
                                               pdfPath = uploadPdfPath,
                                               uploadedUrl = [] \<rparr>),
                                   cleanup
                                     (remdups
                                        (downloadedFiles @ convertedPdfs @
                                         (if tempFinalPdfPath \<in> set convertedPdfs then []
                                          else [tempFinalPdfPath])))
                                     w4))))))"

section \<open>Object storage (StorageService)\<close>

text \<open>\<^verbatim>\<open>s.replace(pat, '')\<close> with a string pattern: the first occurrence goes.\<close>

fun removeFirst :: "string \<Rightarrow> string \<Rightarrow> string" where
  "removeFirst pat [] = []"
| "removeFirst pat (c # cs) =
     (if take (length pat) (c # cs) = pat then drop (length pat) (c # cs)
      else c # removeFirst pat cs)"

definition constructPublicUrl :: "MigrationConfig \<Rightarrow> string \<Rightarrow> string" where
  "constructPublicUrl config key =
     ''https://'' @ bucket config @ ''.'' @ removeFirst ''https://'' (endpoint config)
       @ ''/'' @ key"

text \<open>
  \<^verbatim>\<open>uploadFile\<close>: reading the local file, then the put request; whatever fails is rethrown
  as one \<^verbatim>\<open>Error\<close>.
\<close>

definition uploadFile ::
  "env \<Rightarrow> MigrationConfig \<Rightarrow> string \<Rightarrow> string \<Rightarrow> world \<Rightarrow> (exn + string) \<times> world" where
  "uploadFile e config filePath fileName w =
     (if filePath \<notin> set (files w)
      then (Inl (Error (''Failed to upload file: ''
                          @ showExn (Error (noSuchFile filePath)))), w)
      else
        (let key = migrationFolder config @ ''/'' @ fileName
         in case putObjectFails e (netLog w) key of
              Some m \<Rightarrow>
                (Inl (Error (''Failed to upload file: '' @ showExn (Error m))),
                 logCall (PutObject key) w)
            | None \<Rightarrow> (Inr (constructPublicUrl config key), logCall (PutObject key) w)))"

definition testConnection :: "env \<Rightarrow> MigrationConfig \<Rightarrow> world \<Rightarrow> bool \<times> world" where
  "testConnection e config w =
     (let testKey = migrationFolder config @ ''/connection-test-'' @ numToString e (now e)
                      @ ''.txt''
      in case putObjectFails e (netLog w) testKey of
           Some m \<Rightarrow> (False, logCall (PutObject testKey) w)
         | None \<Rightarrow> (True, logCall (PutObject testKey) w))"

section \<open>Preparing a row (MigrationService.prepareRow)\<close>

record PreparedRow =
  preparedSourceRowId :: string
  destinationData :: "(string \<times> jsval) list"
  preparedFiles :: "ProcessedFile list"

record MigrationResult =
  success :: bool
  sourceRowId :: string
  destinationRowId :: "string option"
  processedFiles :: "ProcessedFile list"
  error :: "string option"

text \<open>
  The test both \<^verbatim>\<open>prepareRow\<close> and \<^verbatim>\<open>mapRowData\<close> write out:
  \<^verbatim>\<open>m.sourceColumn.name === 'Record file' && m.destinationColumn.name === 'Receipt'\<close>.
\<close>

definition isReceiptMapping :: "ColumnMapping \<Rightarrow> bool" where
  "isReceiptMapping m =
     (columnName (sourceColumn m) = ''Record file''
      \<and> columnName (destinationColumn m) = ''Receipt'')"

text \<open>
  \<^verbatim>\<open>extractAttachmentsFromColumn\<close>: of an array cell, the objects with a truthy \<^verbatim>\<open>url\<close> and a
  truthy \<^verbatim>\<open>name\<close> (an array passes \<^verbatim>\<open>typeof item === 'object'\<close> but has neither).
\<close>

fun attachmentObject :: "jsval \<Rightarrow> (string \<times> jsval) list option" where
  "attachmentObject (JObj obj) =
     (if truthy (getProp obj ''url'') \<and> truthy (getProp obj ''name'') then Some obj else None)"
| "attachmentObject v = None"

definition extractAttachmentsFromColumn :: "Row \<Rightarrow> string \<Rightarrow> (string \<times> jsval) list list" where
  "extractAttachmentsFromColumn row colId =
     (case getProp (rowValues row) colId of
        JArr items \<Rightarrow> List.map_filter attachmentObject items
      | _ \<Rightarrow> [])"

text \<open>\<^verbatim>\<open>s.replace(/[^a-zA-Z0-9_-]/g, '_')\<close>\<close>

definition fileNameChar :: "char \<Rightarrow> bool" where
  "fileNameChar c =
     (let n = (of_char c :: nat)
      in (97 \<le> n \<and> n \<le> 122) \<or> (65 \<le> n \<and> n \<le> 90) \<or> (48 \<le> n \<and> n \<le> 57)
         \<or> c = CHR ''_'' \<or> c = CHR ''-'')"

definition sanitizeFileName :: "string \<Rightarrow> string" where
  "sanitizeFileName s = map (\<lambda>c. if fileNameChar c then c else CHR ''_'') s"

text \<open>
  \<^verbatim>\<open>getBaseFileName\<close>. \<^verbatim>\<open>fileName.substring(0, fileName.lastIndexOf('.')) || fileName\<close>:
  without a dot the substring is empty and the whole name is used. A truthy name that is
  not a string has no \<^verbatim>\<open>substring\<close> method; the argument \<^verbatim>\<open>fileName.lastIndexOf('.')\<close> is
  evaluated before the call, and only an array has a \<^verbatim>\<open>lastIndexOf\<close>.
\<close>

definition getBaseFileName :: "Row \<Rightarrow> (string \<times> jsval) list list \<Rightarrow> exn + string" where
  "getBaseFileName row attachments =
     (if attachments \<noteq> [] \<and> truthy (getProp (hd attachments) ''name'') then
        (case getProp (hd attachments) ''name'' of
           JStr fileName \<Rightarrow>
             (let stem = (case lastIndexOfDot fileName of
                            None \<Rightarrow> []
                          | Some i \<Rightarrow> take i fileName);
                  baseName = (if stem \<noteq> [] then stem else fileName)
              in Inr (sanitizeFileName baseName))
         | JArr xs \<Rightarrow> Inl (TypeError ''fileName.substring is not a function'')
         | _ \<Rightarrow> Inl (TypeError ''fileName.lastIndexOf is not a function''))
      else if rowName row \<noteq> [] then Inr (sanitizeFileName (rowName row))
      else Inr (''row_'' @ sanitizeFileName (rowId row)))"

definition processRowAttachments ::
  "env \<Rightarrow> MigrationConfig \<Rightarrow> Row \<Rightarrow> (string \<times> jsval) list list \<Rightarrow> world
     \<Rightarrow> (exn + ProcessedFile option) \<times> world" where
  "processRowAttachments e config row attachments w =
     (case getBaseFileName row attachments of
        Inl err \<Rightarrow> (Inl err, w)
      | Inr baseFileName \<Rightarrow>
          (case processAttachments e attachments baseFileName w of
             (Inl err, w1) \<Rightarrow> (Inl err, w1)
           | (Inr None, w1) \<Rightarrow> (Inr None, w1)
           | (Inr (Some processedFile), w1) \<Rightarrow>
               (case uploadFile e config (pdfPath processedFile)
                       (originalName processedFile @ ''.pdf'') w1 of
                  (Inl err, w2) \<Rightarrow> (Inl err, w2)
                | (Inr uploaded, w2) \<Rightarrow>
                    (Inr (Some (processedFile\<lparr>uploadedUrl := uploaded\<rparr>)), w2))))"

text \<open>
  The body of the loop of \<^verbatim>\<open>mapRowData\<close> for an ordinary mapping: the cell is read, a
  transform is applied to a value that is neither \<^verbatim>\<open>null\<close> nor \<^verbatim>\<open>undefined\<close>, and the
  outcome is sanitized. The transform and the sanitizer may throw.
\<close>

definition destinationValueOf :: "(real \<Rightarrow> string) \<Rightarrow> Row \<Rightarrow> ColumnMapping \<Rightarrow> exn + jsval" where
  "destinationValueOf ns sourceRow mapping =
     (let sourceValue = getProp (rowValues sourceRow) (columnId (sourceColumn mapping))
      in case (case transform mapping of
                 Some f \<Rightarrow>
                   (if sourceValue \<noteq> JNull \<and> sourceValue \<noteq> JUndefined then f sourceValue
                    else Inr sourceValue)
               | None \<Rightarrow> Inr sourceValue) of
           Inl err \<Rightarrow> Inl err
         | Inr transformed \<Rightarrow> sanitizeValue ns transformed)"

text \<open>
  \<^verbatim>\<open>mapRowData\<close>: the loop over the mappings with the payload built so far. Assigning
  \<^verbatim>\<open>destinationData[id]\<close> updates the key in place or appends it.
\<close>

fun mapRowDataLoop ::
  "(real \<Rightarrow> string) \<Rightarrow> Row \<Rightarrow> ProcessedFile list \<Rightarrow> ColumnMapping list
     \<Rightarrow> (string \<times> jsval) list \<Rightarrow> exn + (string \<times> jsval) list" where
  "mapRowDataLoop ns sourceRow procFiles [] data = Inr data"
| "mapRowDataLoop ns sourceRow procFiles (mapping # rest) data =
     (if isReceiptMapping mapping then
        (case procFiles of
           first # others \<Rightarrow>
             mapRowDataLoop ns sourceRow procFiles rest
               (AList.update (columnId (destinationColumn mapping))
                  (JStr (uploadedUrl first)) data)
         | [] \<Rightarrow> mapRowDataLoop ns sourceRow procFiles rest data)
      else
        (case destinationValueOf ns sourceRow mapping of
           Inl err \<Rightarrow> Inl err
         | Inr destinationValue \<Rightarrow>
             (if destinationValue \<noteq> JUndefined \<and> destinationValue \<noteq> JNull
              then mapRowDataLoop ns sourceRow procFiles rest
                     (AList.update (columnId (destinationColumn mapping))
                        destinationValue data)
              else mapRowDataLoop ns sourceRow procFiles rest data)))"

definition mapRowData ::
  "(real \<Rightarrow> string) \<Rightarrow> Row \<Rightarrow> ColumnMapping list \<Rightarrow> ProcessedFile list
     \<Rightarrow> exn + (string \<times> jsval) list" where
  "mapRowData ns sourceRow mappings procFiles =
     mapRowDataLoop ns sourceRow procFiles mappings []"

text \<open>
  \<^verbatim>\<open>prepareRow\<close>: attachments are looked for only under the first mapping that passes the
  test above, and processed only when that cell holds at least one.
\<close>

definition prepareRow ::
  "env \<Rightarrow> MigrationConfig \<Rightarrow> Row \<Rightarrow> ColumnMapping list \<Rightarrow> world
     \<Rightarrow> (exn + PreparedRow) \<times> world" where
  "prepareRow e config sourceRow mappings w =
     (case (case find isReceiptMapping mappings of
              Some attachmentColumnMapping \<Rightarrow>
                (let attachments =
                       extractAttachmentsFromColumn sourceRow
                         (columnId (sourceColumn attachmentColumnMapping))
                 in if attachments \<noteq> [] then
                      (case processRowAttachments e config sourceRow attachments w of
                         (Inl err, w') \<Rightarrow> (Inl err, w')
                       | (Inr None, w') \<Rightarrow> (Inr [], w')
                       | (Inr (Some processedFile), w') \<Rightarrow> (Inr [processedFile], w'))
                    else (Inr [], w))
            | None \<Rightarrow> (Inr [], w)) of
        (Inl err, w') \<Rightarrow> (Inl err, w')
      | (Inr procFiles, w') \<Rightarrow>
          (case mapRowData (numToString e) sourceRow mappings procFiles of
             Inl err \<Rightarrow> (Inl err, w')
           | Inr data \<Rightarrow>
               (Inr \<lparr> preparedSourceRowId = rowId sourceRow,
                      destinationData = data,
                      preparedFiles = procFiles \<rparr>, w')))"

section \<open>Batch insertion (MigrationService.insertRowsBatch)\<close>

text \<open>The entries \<^verbatim>\<open>{ success, destinationRowId?, error? }\<close> of a batch result.\<close>

record BatchResult =
  batchSuccess :: bool
  batchRowId :: "string option"
  batchError :: "string option"

definition batchFailure :: "string \<Rightarrow> BatchResult" where
  "batchFailure msg = \<lparr> batchSuccess = False, batchRowId = None, batchError = Some msg \<rparr>"

definition batchInserted :: "string \<Rightarrow> BatchResult" where
  "batchInserted newId = \<lparr> batchSuccess = True, batchRowId = Some newId, batchError = None \<rparr>"

text \<open>
  \<^verbatim>\<open>insertRowsBatch\<close> never throws. A non-empty \<^verbatim>\<open>addedRowIds\<close> is mapped id by id, so the
  result is as long as the id list, whatever the length of the request.
\<close>

definition insertRowsBatch ::
  "env \<Rightarrow> MigrationConfig \<Rightarrow> (string \<times> jsval) list list \<Rightarrow> world
     \<Rightarrow> BatchResult list \<times> world" where
  "insertRowsBatch e config rowDataArray w =
     (if rowDataArray = [] then ([], w)
      else
        (let call = InsertRows (destinationDocId config) (destinationTableId config) rowDataArray
         in case insertReply e (netLog w) rowDataArray of
              Threw m \<Rightarrow> (map (\<lambda>rowData. batchFailure m) rowDataArray, logCall call w)
            | NotOk status statusText errorText \<Rightarrow>
                (map (\<lambda>rowData.
                        batchFailure
                          (''Failed to insert batch: ''
                           @ httpError (numToString e) status statusText errorText))
                   rowDataArray,
                 logCall call w)
            | Replied addedRowIds \<Rightarrow>
                (case addedRowIds of
                   Some ids \<Rightarrow>
                     (if ids \<noteq> [] then (map batchInserted ids, logCall call w)
                      else (map (\<lambda>rowData.
                                   batchFailure
                                     ''No row IDs returned from batch insert operation'')
                              rowDataArray,
                            logCall call w))
                 | None \<Rightarrow>
                     (map (\<lambda>rowData.
                             batchFailure ''No row IDs returned from batch insert operation'')
                        rowDataArray,
                      logCall call w))))"

section \<open>Orchestration (MigrationService.migrate and recover)\<close>

definition testConnections :: "env \<Rightarrow> MigrationConfig \<Rightarrow> world \<Rightarrow> (exn + unit) \<times> world" where
  "testConnections e config w =
     (case getTable e (sourceDocId config) (sourceTableId config) w of
        (Inl err, w1) \<Rightarrow> (Inl (Error (''Coda API access failed: '' @ showExn err)), w1)
      | (Inr u, w1) \<Rightarrow>
          (case getTable e (destinationDocId config) (destinationTableId config) w1 of
             (Inl err, w2) \<Rightarrow> (Inl (Error (''Coda API access failed: '' @ showExn err)), w2)
           | (Inr u', w2) \<Rightarrow>
               (case testConnection e config w2 of
                  (spacesConnected, w3) \<Rightarrow>
                    (if \<not> spacesConnected
                     then (Inl (Error ''DigitalOcean Spaces connection failed''), w3)
                     else (Inr (), w3)))))"

definition failedResult :: "string \<Rightarrow> ProcessedFile list \<Rightarrow> string option \<Rightarrow> MigrationResult" where
  "failedResult rid procFiles msg =
     \<lparr> success = False, sourceRowId = rid, destinationRowId = None,
       processedFiles = procFiles, error = msg \<rparr>"

text \<open>
  Phase 1, the loop over the source rows: a prepared row joins \<open>preparedRows\<close>, a row
  whose preparation throws leaves one failed result in \<open>allResults\<close>.
\<close>

fun preparePhase ::
  "env \<Rightarrow> MigrationConfig \<Rightarrow> ColumnMapping list \<Rightarrow> Row list \<Rightarrow> PreparedRow list
     \<Rightarrow> MigrationResult list \<Rightarrow> world \<Rightarrow> PreparedRow list \<times> MigrationResult list \<times> world" where
  "preparePhase e config mappings [] preparedRows allResults w = (preparedRows, allResults, w)"
| "preparePhase e config mappings (sourceRow # rest) preparedRows allResults w =
     (case prepareRow e config sourceRow mappings w of
        (Inr result, w') \<Rightarrow>
          preparePhase e config mappings rest (preparedRows @ [result]) allResults w'
      | (Inl err, w') \<Rightarrow>
          preparePhase e config mappings rest preparedRows
            (allResults @ [failedResult (rowId sourceRow) [] (Some (message err))]) w')"

text \<open>
  \<^verbatim>\<open>for (let i = 0; i < preparedRows.length; i += batchSize) batches.push(...)\<close>: with a
  batch size of 0 the loop never ends, and the value is \<open>None\<close>.
\<close>

partial_function (option) splitBatches ::
  "nat \<Rightarrow> 'a list \<Rightarrow> nat \<Rightarrow> 'a list list \<Rightarrow> 'a list list option" where
  "splitBatches chunkSize preparedRows i batches =
     (if i < length preparedRows
      then splitBatches chunkSize preparedRows (i + chunkSize)
             (batches @ [slice i (i + chunkSize) preparedRows])
      else Some batches)"

declare splitBatches.simps [code]

text \<open>
  The inner loop of a batch, inside the \<^verbatim>\<open>try\<close>: row \<open>i\<close> of the batch reads
  \<^verbatim>\<open>batchResults[i]\<close>. When the batch result is shorter than the batch that read is
  \<^verbatim>\<open>undefined\<close> and \<^verbatim>\<open>batchResult.success\<close> throws; the results pushed and the files
  removed until then stay.
\<close>

fun mapBatchResults ::
  "PreparedRow list \<Rightarrow> BatchResult list \<Rightarrow> MigrationResult list \<Rightarrow> world
     \<Rightarrow> exn option \<times> MigrationResult list \<times> world" where
  "mapBatchResults [] batchResults allResults w = (None, allResults, w)"
| "mapBatchResults (preparedRow # rest) [] allResults w =
     (Some (TypeError ''Cannot read properties of undefined (reading 'success')''),
      allResults, w)"
| "mapBatchResults (preparedRow # rest) (batchResult # others) allResults w =
     mapBatchResults rest others
       (allResults @
        [if batchSuccess batchResult
         then \<lparr> success = True, sourceRowId = preparedSourceRowId preparedRow,
                destinationRowId = batchRowId batchResult,
                processedFiles = preparedFiles preparedRow, error = None \<rparr>
         else failedResult (preparedSourceRowId preparedRow) (preparedFiles preparedRow)
                (batchError batchResult)])
       (fold cleanupProcessedFile (preparedFiles preparedRow) w)"

text \<open>The \<^verbatim>\<open>catch\<close> of a batch: every row of the batch is pushed as failed.\<close>

fun failBatch ::
  "string \<Rightarrow> PreparedRow list \<Rightarrow> MigrationResult list \<Rightarrow> world
     \<Rightarrow> MigrationResult list \<times> world" where
  "failBatch msg [] allResults w = (allResults, w)"
| "failBatch msg (preparedRow # rest) allResults w =
     failBatch msg rest
       (allResults @
        [failedResult (preparedSourceRowId preparedRow) (preparedFiles preparedRow) (Some msg)])
       (fold cleanupProcessedFile (preparedFiles preparedRow) w)"

fun insertBatches ::
  "env \<Rightarrow> MigrationConfig \<Rightarrow> PreparedRow list list \<Rightarrow> MigrationResult list \<Rightarrow> world
     \<Rightarrow> MigrationResult list \<times> world" where
  "insertBatches e config [] allResults w = (allResults, w)"
| "insertBatches e config (batch # rest) allResults w =
     (case insertRowsBatch e config (map destinationData batch) w of
        (batchResults, w1) \<Rightarrow>
          (case mapBatchResults batch batchResults allResults w1 of
             (None, results, w2) \<Rightarrow> insertBatches e config rest results w2
           | (Some err, results, w2) \<Rightarrow>
               (case failBatch (message err) batch results w2 of
                  (results', w3) \<Rightarrow> insertBatches e config rest results' w3)))"

text \<open>Phase 2: skipped when nothing was prepared.\<close>

definition insertPhase ::
  "env \<Rightarrow> MigrationConfig \<Rightarrow> PreparedRow list \<Rightarrow> MigrationResult list \<Rightarrow> world
     \<Rightarrow> (MigrationResult list \<times> world) option" where
  "insertPhase e config preparedRows allResults w =
     (if preparedRows \<noteq> [] then
        (case splitBatches (insertBatchSize config) preparedRows 0 [] of
           None \<Rightarrow> None
         | Some batches \<Rightarrow> Some (insertBatches e config batches allResults w))
      else Some (allResults, w))"

text \<open>
  The two phases over the rows of a run, as \<^verbatim>\<open>migrate\<close> and \<^verbatim>\<open>recover\<close> both write
  them out (they differ in their pauses and log lines only).
\<close>

definition processRows ::
  "env \<Rightarrow> MigrationConfig \<Rightarrow> ColumnMapping list \<Rightarrow> Row list \<Rightarrow> world
     \<Rightarrow> (MigrationResult list \<times> world) option" where
  "processRows e config mappings sourceRows w =
     (case preparePhase e config mappings sourceRows [] [] w of
        (preparedRows, allResults, w') \<Rightarrow> insertPhase e config preparedRows allResults w')"

text \<open>
  \<^verbatim>\<open>migrate\<close>: the body of the \<^verbatim>\<open>try\<close>, then the \<^verbatim>\<open>finally\<close> that removes both
  directories. The ledger \<^verbatim>\<open>failed-rows.json\<close> is written when a result failed; the
  file's content plays no part here, its path does.
\<close>

definition migrateBody ::
  "env \<Rightarrow> MigrationConfig \<Rightarrow> world \<Rightarrow> ((exn + MigrationResult list) \<times> world) option" where
  "migrateBody e config w =
     (case testConnections e config w of
        (Inl err, w1) \<Rightarrow> Some (Inl err, w1)
      | (Inr u, w1) \<Rightarrow>
          (case createColumnMapping e config w1 of
             (Inl err, w2) \<Rightarrow> Some (Inl err, w2)
           | (Inr mappings, w2) \<Rightarrow>
               (if mappings = []
                then Some (Inl (Error ''No column mappings found. Check your configuration.''), w2)
                else
                  (case getAllTableRows e (sourceDocId config) (sourceTableId config)
                          (batchSize config) w2 of
                     None \<Rightarrow> None
                   | Some (Inl err, w3) \<Rightarrow> Some (Inl err, w3)
                   | Some (Inr sourceRows, w3) \<Rightarrow>
                       (if sourceRows = [] then Some (Inr [], w3)
                        else
                          (case processRows e config mappings sourceRows w3 of
                             None \<Rightarrow> None
                           | Some (allResults, w4) \<Rightarrow>
                               (if filter (\<lambda>r. \<not> success r) allResults \<noteq> [] then
                                  (case writeFile e ''failed-rows.json'' w4 of
                                     (Inl err, w5) \<Rightarrow> Some (Inl err, w5)
                                   | (Inr u', w5) \<Rightarrow> Some (Inr allResults, w5))
                                else Some (Inr allResults, w4))))))))"

definition migrate ::
  "env \<Rightarrow> MigrationConfig \<Rightarrow> world \<Rightarrow> ((exn + MigrationResult list) \<times> world) option" where
  "migrate e config w =
     (case migrateBody e config w of
        None \<Rightarrow> None
      | Some (outcome, w') \<Rightarrow> Some (outcome, cleanupAllDirectories w'))"

text \<open>
  \<^verbatim>\<open>recover\<close>. The ledger is read and the empty id list answered before the \<^verbatim>\<open>try\<close>, so
  that return does not pass through the \<^verbatim>\<open>finally\<close>.
\<close>

definition recoverBody ::
  "env \<Rightarrow> MigrationConfig \<Rightarrow> string list \<Rightarrow> world
     \<Rightarrow> ((exn + MigrationResult list) \<times> world) option" where
  "recoverBody e config failedRowIds w =
     (case testConnections e config w of
        (Inl err, w1) \<Rightarrow> Some (Inl err, w1)
      | (Inr u, w1) \<Rightarrow>
          (case createColumnMapping e config w1 of
             (Inl err, w2) \<Rightarrow> Some (Inl err, w2)
           | (Inr mappings, w2) \<Rightarrow>
               (if mappings = []
                then Some (Inl (Error ''No column mappings found. Check your configuration.''), w2)
                else
                  (case getSpecificRows e (sourceDocId config) (sourceTableId config)
                          failedRowIds w2 of
                     (sourceRows, w3) \<Rightarrow>
                       (if sourceRows = [] then Some (Inr [], w3)
                        else
                          (case processRows e config mappings sourceRows w3 of
                             None \<Rightarrow> None
                           | Some (allResults, w4) \<Rightarrow>
                               (case writeFile e ''recovery-results.json'' w4 of
                                  (Inl err, w5) \<Rightarrow> Some (Inl err, w5)
                                | (Inr u', w5) \<Rightarrow>
                                    (if filter (\<lambda>r. \<not> success r) allResults \<noteq> [] then
                                       (case writeFile e ''still-failed-rows.json'' w5 of
                                          (Inl err, w6) \<Rightarrow> Some (Inl err, w6)
                                        | (Inr u'', w6) \<Rightarrow> Some (Inr allResults, w6))
                                     else Some (Inr allResults, w5)))))))))"

definition recover ::
  "env \<Rightarrow> MigrationConfig \<Rightarrow> string option \<Rightarrow> world
     \<Rightarrow> ((exn + MigrationResult list) \<times> world) option" where
  "recover e config failedRowsPath w =
     (let failedRowsFile =
            (case failedRowsPath of
               Some p \<Rightarrow> if p \<noteq> [] then p else ''failed-rows.json''
             | None \<Rightarrow> ''failed-rows.json'')
      in case readLedger e failedRowsFile of
           Missing \<Rightarrow> Some (Inl (Error (''Failed rows file not found: '' @ failedRowsFile)), w)
         | Unreadable m \<Rightarrow> Some (Inl (Error m), w)
         | Ledger ids \<Rightarrow>
             (let failedRowIds = (case ids of Some l \<Rightarrow> l | None \<Rightarrow> [])
              in if failedRowIds = [] then Some (Inr [], w)
                 else
                   (case recoverBody e config failedRowIds w of
                      None \<Rightarrow> None
                    | Some (outcome, w') \<Rightarrow> Some (outcome, cleanupAllDirectories w'))))"

section \<open>Notions the theorems are stated with\<close>


text \<open>
  A source column that can be mapped: it is not calculated, not in the skip-list, and the
  name configured for it is the name of a destination column that is not calculated.
\<close>

definition eligible :: "MigrationConfig \<Rightarrow> CodaColumn list \<Rightarrow> CodaColumn \<Rightarrow> bool" where
  "eligible config destColumns sourceCol =
     (\<not> calculated sourceCol
      \<and> columnName sourceCol \<notin> set (skipColumns config)
      \<and> (\<exists>dc \<in> set destColumns.
            \<not> calculated dc \<and> columnName dc \<noteq> []
            \<and> map_of (columnMappings config) (columnName sourceCol) = Some (columnName dc)))"

text \<open>A list cut into consecutive chunks of \<open>n\<close> elements, the last one possibly shorter.\<close>

function chunksOf :: "nat \<Rightarrow> 'a list \<Rightarrow> 'a list list" where
  "chunksOf n xs = (if n = 0 \<or> xs = [] then [] else take n xs # chunksOf n (drop n xs))"
  by pat_completeness auto
termination
  by (relation "measure (\<lambda>(n, xs). length xs)") auto

declare chunksOf.simps [simp del]

text \<open>
  Targeted retrieval as the specification words it: each chunk of ids is requested on its
  own; the rows of its response that carry a requested id are kept; a chunk whose request
  fails, or whose response has no item list, contributes nothing. \<open>issued\<close> is the list of
  requests issued before the chunk's own.
\<close>

definition chunkRows ::
  "env \<Rightarrow> net_call list \<Rightarrow> string \<Rightarrow> string \<Rightarrow> string list \<Rightarrow> Row list" where
  "chunkRows e issued docId tableId batchIds =
     (case rowsByIdsReply e issued docId tableId batchIds of
        Replied (Some items) \<Rightarrow> filter (\<lambda>item. rowId item \<in> set batchIds) items
      | _ \<Rightarrow> [])"

fun fetchChunks ::
  "env \<Rightarrow> string \<Rightarrow> string \<Rightarrow> string list list \<Rightarrow> net_call list \<Rightarrow> Row list" where
  "fetchChunks e docId tableId [] issued = []"
| "fetchChunks e docId tableId (c # cs) issued =
     chunkRows e issued docId tableId c
     @ fetchChunks e docId tableId cs (issued @ [GetRowsByIds docId tableId c])"


section \<open>Example inputs\<close>

text \<open>A number rendering for the examples below, none of which depends on it.\<close>

definition exampleNumberToString :: "real \<Rightarrow> string" where
  "exampleNumberToString n = ''0''"

definition exMoney :: "(string \<times> jsval) list" where
  "exMoney =
     [(''@type'', JStr ''MonetaryAmount''), (''currency'', JStr ''USD''), (''amount'', JNum 42.5)]"

definition exMoneyText :: "(string \<times> jsval) list" where
  "exMoneyText = [(''@type'', JStr ''MonetaryAmount''), (''amount'', JStr ''12.50'')]"

definition exPerson :: "(string \<times> jsval) list" where
  "exPerson = [(''@type'', JStr ''Person''), (''name'', JStr ''Jo''), (''email'', JStr ''jo@x.com'')]"

definition exReference :: "(string \<times> jsval) list" where
  "exReference =
     [(''@type'', JStr ''StructuredValue''), (''name'', JStr ''Jo''),
      (''email'', JStr ''jo@x.com'')]"

definition exUnknown :: "(string \<times> jsval) list" where
  "exUnknown = [(''amount'', JNum 42.5), (''currency'', JStr ''USD'')]"

text \<open>Columns, mappings and a source row.\<close>

definition exColumn :: "string \<Rightarrow> string \<Rightarrow> bool \<Rightarrow> string \<Rightarrow> CodaColumn" where
  "exColumn cid cname calc ftype =
     \<lparr> columnId = cid, columnName = cname, display = False, calculated = calc,
       formatType = ftype \<rparr>"

definition exAmountMapping :: ColumnMapping where
  "exAmountMapping =
     \<lparr> sourceColumn = exColumn ''c-amount-s'' ''Amount'' False ''currency'',
       destinationColumn = exColumn ''c-amount-d'' ''Amount'' False ''currency'',
       transform = None \<rparr>"

definition exNotesMapping :: ColumnMapping where
  "exNotesMapping =
     \<lparr> sourceColumn = exColumn ''c-notes-s'' ''Notes'' False ''text'',
       destinationColumn = exColumn ''c-notes-d'' ''Notes'' False ''text'',
       transform = None \<rparr>"




definition exScan :: jsval where
  "exScan =
     JObj [(''@type'', JStr ''ImageObject''), (''name'', JStr ''scan.png''),
           (''url'', JStr ''https://x/scan.png'')]"

definition exRow :: Row where
  "exRow =
     \<lparr> rowId = ''i-1'', rowName = ''Expense 1'',
       rowValues =
         [(''c-amount-s'', JObj exMoney), (''c-notes-s'', JNull), (''c-file-s'', JArr []),
          (''c-backup-s'', JStr ''https://x/backup.pdf''), (''c-scans-s'', JArr [exScan])] \<rparr>"

definition exConfig :: MigrationConfig where
  "exConfig =
     \<lparr> sourceDocId = ''doc-s'', sourceTableId = ''grid-s'',
       destinationDocId = ''doc-d'', destinationTableId = ''grid-d'',
       bucket = ''bucket'', endpoint = ''https://nyc3.example.com'',
       migrationFolder = ''Migration'', batchSize = 100, insertBatchSize = 20,
       columnMappings =
         [(''Amount'', ''Amount''), (''Notes'', ''Notes''), (''Record file'', ''Receipt''),
          (''Total'', ''Total''), (''Vendor'', ''Vendor''), (''Ref'', ''Ref'')],
       skipColumns = [''Ref''],
       transformations = None \<rparr>"

text \<open>An environment in which every request and every file operation succeeds.\<close>

definition exEnv :: env where
  "exEnv =
     \<lparr> numToString = exampleNumberToString,
       localeCompare = (\<lambda>a b. 0),
       now = 0,
       tableReply = (\<lambda>log docId tableId. Replied ()),
       columnsReply = (\<lambda>log docId tableId. Replied []),
       rowsReply = (\<lambda>log docId tableId limit token. Replied ([], None)),
       rowsByIdsReply = (\<lambda>log docId tableId ids. Replied (Some [])),
       insertReply = (\<lambda>log payloads. Replied None),
       downloadReply = (\<lambda>log url. Replied ()),
       putObjectFails = (\<lambda>log key. None),
       writeFails = (\<lambda>path. None),
       copyFails = (\<lambda>src dst. None),
       renderFails = (\<lambda>path. None),
       readLedger = (\<lambda>path. Missing) \<rparr>"

definition exWorld :: world where
  "exWorld = \<lparr> netLog = [], files = [] \<rparr>"

text \<open>Source and destination schemas: a skipped, a calculated and an unmapped source column,
  a destination that is calculated and one that does not exist.\<close>

definition exSourceColumns :: "CodaColumn list" where
  "exSourceColumns =
     [exColumn ''c-amount-s'' ''Amount'' False ''currency'',
      exColumn ''c-ref-s'' ''Ref'' False ''text'',
      exColumn ''c-total-s'' ''Total'' True ''number'',
      exColumn ''c-vendor-s'' ''Vendor'' False ''text'',
      exColumn ''c-tags-s'' ''Tags'' False ''text'',
      exColumn ''c-notes-s'' ''Notes'' False ''text'',
      exColumn ''c-file-s'' ''Record file'' False ''attachments'']"

definition exDestColumns :: "CodaColumn list" where
  "exDestColumns =
     [exColumn ''c-amount-d'' ''Amount'' False ''currency'',
      exColumn ''c-ref-d'' ''Ref'' False ''text'',
      exColumn ''c-vendor-d'' ''Vendor'' True ''text'',
      exColumn ''c-notes-d'' ''Notes'' False ''text'']"

definition exSchemaEnv :: env where
  "exSchemaEnv =
     exEnv\<lparr>columnsReply :=
       (\<lambda>log docId tableId.
          Replied (if tableId = ''grid-s'' then exSourceColumns else exDestColumns))\<rparr>"

text \<open>
  A table service that answers a request for ids with the row \<^verbatim>\<open>i-1\<close> and a row nobody
  asked for, and one that rejects every request.
\<close>

definition exStrayRow :: Row where
  "exStrayRow = \<lparr> rowId = ''i-9'', rowName = ''Expense 9'', rowValues = [] \<rparr>"

definition exRowsEnv :: env where
  "exRowsEnv =
     exEnv\<lparr>rowsByIdsReply := (\<lambda>log docId tableId ids. Replied (Some [exRow, exStrayRow]))\<rparr>"

definition exOfflineEnv :: env where
  "exOfflineEnv =
     exEnv\<lparr>rowsByIdsReply := (\<lambda>log docId tableId ids. Threw ''fetch failed'')\<rparr>"

text \<open>A table service whose first answer is a rejection, and a request for 21 ids.\<close>

definition exFlakyEnv :: env where
  "exFlakyEnv =
     exEnv\<lparr>rowsByIdsReply :=
       (\<lambda>log docId tableId ids.
          if log = [] then Threw ''socket hang up'' else Replied (Some [exRow, exStrayRow]))\<rparr>"

definition exManyIds :: "string list" where
  "exManyIds = replicate 20 ''i-2'' @ [''i-1'']"

text \<open>
  Two payloads, and an insertion endpoint that answers a request with a single new id,
  whatever the number of rows sent.
\<close>

definition exPayloads :: "(string \<times> jsval) list list" where
  "exPayloads = [[(''c-amount-d'', JNum 42.5)], [(''c-amount-d'', JNum 7)]]"

definition exShortEnv :: env where
  "exShortEnv = exEnv\<lparr>insertReply := (\<lambda>log payloads. Replied (Some [''new-1'']))\<rparr>"

definition exInsertEnv :: env where
  "exInsertEnv = exEnv\<lparr>insertReply := (\<lambda>log payloads. Replied (Some [''new-1'', ''new-2'']))\<rparr>"

text \<open>
  A row with one receipt attachment whose name needs sanitizing, and a disk on which the
  copy into the staging directory fails.
\<close>

definition exReceiptScan :: "(string \<times> jsval) list" where
  "exReceiptScan =
     [(''@type'', JStr ''ImageObject''), (''name'', JStr ''my receipt.png''),
      (''url'', JStr ''https://x/r.png'')]"

definition exFileRow :: Row where
  "exFileRow =
     \<lparr> rowId = ''i-3'', rowName = ''Expense 3'',
       rowValues = [(''c-file-s'', JArr [JObj exReceiptScan])] \<rparr>"

definition exStagingFailsEnv :: env where
  "exStagingFailsEnv =
     exEnv\<lparr>copyFails :=
       (\<lambda>src dst.
          if dst = ''upload/my_receipt.pdf''
          then Some (''ENOSPC: no space left on device, copyfile '' @ quoted src
                       @ '' -> '' @ quoted dst)
          else None)\<rparr>"

text \<open>
  A run over two source rows that both prepare, against an insertion endpoint that answers
  the batch of two with one identifier.
\<close>

definition exRow2 :: Row where
  "exRow2 = \<lparr> rowId = ''i-2'', rowName = ''Expense 2'', rowValues = [(''c-amount-s'', JNum 7)] \<rparr>"

definition exShortRunEnv :: env where
  "exShortRunEnv =
     exSchemaEnv
       \<lparr>rowsReply := (\<lambda>log docId tableId limit token. Replied ([exRow, exRow2], None)),
        insertReply := (\<lambda>log payloads. Replied (Some [''new-1'']))\<rparr>"

text \<open>A ledger with no failed row, and one naming the row \<^verbatim>\<open>i-1\<close>.\<close>

definition exEmptyLedgerEnv :: env where
  "exEmptyLedgerEnv =
     exEnv\<lparr>readLedger :=
       (\<lambda>path. if path = ''failed-rows.json'' then Ledger (Some []) else Missing)\<rparr>"

definition exLedgerEnv :: env where
  "exLedgerEnv =
     exEnv\<lparr>readLedger :=
       (\<lambda>path. if path = ''failed-rows.json'' then Ledger (Some [''i-1'']) else Missing)\<rparr>"




section \<open>Sanitization: theorems\<close>

lemma getProp_plain: "plainValue (JObj obj) \<Longrightarrow> plainValue (getProp obj k)"
  by (auto simp: getProp_def split: option.splits dest!: map_of_SomeD)

lemma toStr_plain:
  "plainValue v \<Longrightarrow> \<exists>s. toStr ns v = Inr s"
  "(\<forall>x \<in> set xs. plainValue x) \<Longrightarrow> \<exists>s. joinItems ns xs = Inr s"
  by (induction ns v and ns xs rule: toStr_joinItems.induct) auto

lemma strOf_plain: "plainValue v \<Longrightarrow> \<exists>r. strOf ns v = Inr r"
  using toStr_plain(1)[of v ns] by (auto simp: strOf_def)

lemma sanitize_plain:
  "plainValue v \<Longrightarrow> \<exists>r. sanitizeValue ns v = Inr r"
  "(\<forall>x \<in> set xs. plainValue x) \<Longrightarrow> \<exists>rs. sanitizeItems ns xs = Inr rs"
proof (induction ns v and ns xs rule: sanitizeValue_sanitizeItems.induct)
  case (7 ns obj)
  have "\<And>k. \<exists>r. strOf ns (getProp obj k) = Inr r"
    using 7 getProp_plain strOf_plain by blast
  moreover have "\<exists>r. strOf ns (JObj obj) = Inr r"
    using 7 strOf_plain by blast
  ultimately show ?case
    by (auto split: option.splits)
qed auto

text \<open>
  C4, as the code has it. Sanitization does not raise on a value none of whose objects has
  an own \<^verbatim>\<open>toString\<close> property. An object tagged \<^verbatim>\<open>MonetaryAmount\<close> with a numeric amount
  yields that amount. An object tagged \<^verbatim>\<open>Person\<close> yields its email, else its name, else its
  string form; its url is not consulted. An object tagged \<^verbatim>\<open>StructuredValue\<close> yields its
  name, else its url, else its display text, else its string form; its email is not
  consulted. An object with none of the four known tags and no truthy name, url, display
  text or text yields its string form, \<^verbatim>\<open>[object Object]\<close>.
\<close>

theorem sanitize_by_tag:
  "(plainValue v \<longrightarrow> (\<exists>r. sanitizeValue ns v = Inr r))
   \<and> (getProp m ''@type'' = JStr ''MonetaryAmount'' \<and> getProp m ''amount'' = JNum a
        \<longrightarrow> sanitizeValue ns (JObj m) = Inr (JNum a))
   \<and> (getProp p ''@type'' = JStr ''Person''
        \<longrightarrow> sanitizeValue ns (JObj p) =
            (if truthy (getProp p ''email'') then Inr (getProp p ''email'')
             else if truthy (getProp p ''name'') then Inr (getProp p ''name'')
             else strOf ns (JObj p)))
   \<and> (getProp s ''@type'' = JStr ''StructuredValue''
        \<longrightarrow> sanitizeValue ns (JObj s) =
            (if truthy (getProp s ''name'') then Inr (getProp s ''name'')
             else if truthy (getProp s ''url'') then Inr (getProp s ''url'')
             else if truthy (getProp s ''displayText'') then Inr (getProp s ''displayText'')
             else strOf ns (JObj s)))
   \<and> (getProp u ''@type''
          \<notin> JStr ` {''MonetaryAmount'', ''StructuredValue'', ''Person'', ''ImageObject''}
        \<and> \<not> truthy (getProp u ''name'') \<and> \<not> truthy (getProp u ''url'')
        \<and> \<not> truthy (getProp u ''displayText'') \<and> \<not> truthy (getProp u ''text'')
        \<and> ''toString'' \<notin> set (map fst u)
        \<longrightarrow> sanitizeValue ns (JObj u) = Inr (JStr ''[object Object]''))"
proof (intro conjI impI)
  assume "plainValue v"
  then show "\<exists>r. sanitizeValue ns v = Inr r" by (rule sanitize_plain(1))
next
  assume "getProp m ''@type'' = JStr ''MonetaryAmount'' \<and> getProp m ''amount'' = JNum a"
  then show "sanitizeValue ns (JObj m) = Inr (JNum a)" by simp
next
  assume "getProp p ''@type'' = JStr ''Person''"
  then show "sanitizeValue ns (JObj p) =
            (if truthy (getProp p ''email'') then Inr (getProp p ''email'')
             else if truthy (getProp p ''name'') then Inr (getProp p ''name'')
             else strOf ns (JObj p))" by simp
next
  assume "getProp s ''@type'' = JStr ''StructuredValue''"
  then show "sanitizeValue ns (JObj s) =
            (if truthy (getProp s ''name'') then Inr (getProp s ''name'')
             else if truthy (getProp s ''url'') then Inr (getProp s ''url'')
             else if truthy (getProp s ''displayText'') then Inr (getProp s ''displayText'')
             else strOf ns (JObj s))" by simp
next
  assume "getProp u ''@type''
          \<notin> JStr ` {''MonetaryAmount'', ''StructuredValue'', ''Person'', ''ImageObject''}
        \<and> \<not> truthy (getProp u ''name'') \<and> \<not> truthy (getProp u ''url'')
        \<and> \<not> truthy (getProp u ''displayText'') \<and> \<not> truthy (getProp u ''text'')
        \<and> ''toString'' \<notin> set (map fst u)"
  then show "sanitizeValue ns (JObj u) = Inr (JStr ''[object Object]'')"
    by (simp add: strOf_def)
qed

theorem sanitize_by_tag_witness:
  "plainValue (JObj exUnknown)
   \<and> (\<exists>r. sanitizeValue exampleNumberToString (JObj exUnknown) = Inr r)
   \<and> getProp exMoney ''@type'' = JStr ''MonetaryAmount''
   \<and> getProp exMoney ''amount'' = JNum 42.5
   \<and> sanitizeValue exampleNumberToString (JObj exMoney) = Inr (JNum 42.5)
   \<and> getProp exPerson ''@type'' = JStr ''Person''
   \<and> sanitizeValue exampleNumberToString (JObj exPerson) = Inr (JStr ''jo@x.com'')
   \<and> getProp exReference ''@type'' = JStr ''StructuredValue''
   \<and> sanitizeValue exampleNumberToString (JObj exReference) = Inr (JStr ''Jo'')
   \<and> getProp exUnknown ''@type''
        \<notin> JStr ` {''MonetaryAmount'', ''StructuredValue'', ''Person'', ''ImageObject''}
   \<and> \<not> truthy (getProp exUnknown ''name'') \<and> \<not> truthy (getProp exUnknown ''url'')
   \<and> \<not> truthy (getProp exUnknown ''displayText'') \<and> \<not> truthy (getProp exUnknown ''text'')
   \<and> ''toString'' \<notin> set (map fst exUnknown)
   \<and> sanitizeValue exampleNumberToString (JObj exUnknown) = Inr (JStr ''[object Object]'')"
proof -
  have plain: "plainValue (JObj exUnknown)"
    by (simp add: exUnknown_def)
  have money:
    "getProp exMoney ''@type'' = JStr ''MonetaryAmount'' \<and> getProp exMoney ''amount'' = JNum 42.5"
    by (simp add: exMoney_def getProp_def)
  have person: "getProp exPerson ''@type'' = JStr ''Person''"
    by (simp add: exPerson_def getProp_def)
  have person_email: "getProp exPerson ''email'' = JStr ''jo@x.com''"
    by (simp add: exPerson_def getProp_def)
  have reference: "getProp exReference ''@type'' = JStr ''StructuredValue''"
    by (simp add: exReference_def getProp_def)
  have reference_name: "getProp exReference ''name'' = JStr ''Jo''"
    by (simp add: exReference_def getProp_def)
  have unknown:
    "getProp exUnknown ''@type''
        \<notin> JStr ` {''MonetaryAmount'', ''StructuredValue'', ''Person'', ''ImageObject''}
     \<and> \<not> truthy (getProp exUnknown ''name'') \<and> \<not> truthy (getProp exUnknown ''url'')
     \<and> \<not> truthy (getProp exUnknown ''displayText'') \<and> \<not> truthy (getProp exUnknown ''text'')
     \<and> ''toString'' \<notin> set (map fst exUnknown)"
    by (simp add: exUnknown_def getProp_def)
  note inst = sanitize_by_tag [of "JObj exUnknown" exampleNumberToString exMoney "42.5"
      exPerson exReference exUnknown]
  from inst plain money person person_email reference reference_name unknown
  show ?thesis by simp
qed

text \<open>
  C4 as stated fails: a structured reference carrying both a name and an email sanitizes
  to the name, where the stated preference order puts the email first.
\<close>

theorem sanitize_preference_order_counterexample:
  "getProp exReference ''@type'' = JStr ''StructuredValue''
   \<and> getProp exReference ''email'' = JStr ''jo@x.com''
   \<and> sanitizeValue exampleNumberToString (JObj exReference) = Inr (JStr ''Jo'')
   \<and> sanitizeValue exampleNumberToString (JObj exReference) \<noteq> Inr (JStr ''jo@x.com'')"
  by (simp add: exReference_def getProp_def)

text \<open>
  C10. An object tagged \<^verbatim>\<open>MonetaryAmount\<close> whose \<^verbatim>\<open>amount\<close> is not a number sanitizes to
  exactly the number 0: no error is raised and the structure is not returned.
\<close>

theorem sanitize_monetary_non_numeric_amount:
  assumes "getProp obj ''@type'' = JStr ''MonetaryAmount''"
    and "\<forall>n. getProp obj ''amount'' \<noteq> JNum n"
  shows "sanitizeValue ns (JObj obj) = Inr (JNum 0)"
  using assms by (cases "getProp obj ''amount''") simp_all

theorem sanitize_monetary_non_numeric_amount_witness:
  "getProp exMoneyText ''@type'' = JStr ''MonetaryAmount''
   \<and> (\<forall>n. getProp exMoneyText ''amount'' \<noteq> JNum n)
   \<and> sanitizeValue exampleNumberToString (JObj exMoneyText) = Inr (JNum 0)"
proof -
  have tagged: "getProp exMoneyText ''@type'' = JStr ''MonetaryAmount''"
    by (simp add: exMoneyText_def getProp_def)
  have no_number: "\<forall>n. getProp exMoneyText ''amount'' \<noteq> JNum n"
    by (simp add: exMoneyText_def getProp_def)
  from sanitize_monetary_non_numeric_amount [OF tagged no_number] tagged no_number
  show ?thesis by blast
qed

section \<open>The destination payload: theorems\<close>



lemma update_entry: "(k, v) \<in> set (AList.update k v al)"
  by (induction al) auto




















section \<open>Schema mapping: theorems\<close>

lemma find_SomeD: "find P xs = Some x \<Longrightarrow> P x \<and> x \<in> set xs"
  by (induction xs) (auto split: if_splits)

lemma mapColumns_emitted:
  assumes "m \<in> set (mapColumns ns config destColumns sourceColumns)"
  shows "\<not> calculated (sourceColumn m)
         \<and> columnName (sourceColumn m) \<notin> set (skipColumns config)
         \<and> \<not> calculated (destinationColumn m)
         \<and> map_of (columnMappings config) (columnName (sourceColumn m))
             = Some (columnName (destinationColumn m))
         \<and> sourceColumn m \<in> set sourceColumns
         \<and> destinationColumn m \<in> set destColumns"
  using assms
proof (induction sourceColumns)
  case Nil
  then show ?case by simp
next
  case (Cons sourceCol rest)
  show ?case
  proof (cases "m \<in> set (mapColumns ns config destColumns rest)")
    case True
    with Cons.IH show ?thesis by simp
  next
    case False
    with Cons.prems obtain d destCol where
      src: "\<not> calculated sourceCol" "columnName sourceCol \<notin> set (skipColumns config)"
      and d: "map_of (columnMappings config) (columnName sourceCol) = Some d"
      and found: "find (\<lambda>dc. columnName dc = d \<and> \<not> calculated dc) destColumns = Some destCol"
      and m: "m = \<lparr> sourceColumn = sourceCol, destinationColumn = destCol,
                     transform = createTransform ns sourceCol destCol config \<rparr>"
      by (auto split: if_splits option.splits)
    from find_SomeD[OF found] src d m show ?thesis by simp
  qed
qed

lemma find_eligible:
  "(find (\<lambda>dc. columnName dc = d \<and> \<not> calculated dc) destColumns \<noteq> None)
     = (\<exists>dc \<in> set destColumns. \<not> calculated dc \<and> columnName dc = d)"
  by (auto simp: find_None_iff)

lemma mapColumns_sources:
  "map sourceColumn (mapColumns ns config destColumns sourceColumns)
     = filter (eligible config destColumns) sourceColumns"
proof (induction sourceColumns)
  case Nil
  then show ?case by simp
next
  case (Cons sourceCol rest)
  show ?case
  proof (cases "map_of (columnMappings config) (columnName sourceCol)")
    case None
    with Cons show ?thesis by (simp add: eligible_def)
  next
    case (Some d)
    show ?thesis
    proof (cases "find (\<lambda>dc. columnName dc = d \<and> \<not> calculated dc) destColumns")
      case None
      then have "\<not> (\<exists>dc \<in> set destColumns. \<not> calculated dc \<and> columnName dc = d)"
        using find_eligible[of d destColumns] by simp
      with Cons Some None show ?thesis by (auto simp: eligible_def)
    next
      case found: (Some destCol)
      then have "\<exists>dc \<in> set destColumns. \<not> calculated dc \<and> columnName dc = d"
        using find_eligible[of d destColumns] by simp
      with Cons Some found show ?thesis by (auto simp: eligible_def)
    qed
  qed
qed

lemma createColumnMapping_result:
  assumes "createColumnMapping e config w = (Inr ms, w')"
  shows "\<exists>destColumns sourceColumns.
           ms = mapColumns (numToString e) config destColumns sourceColumns"
  using assms unfolding createColumnMapping_def
  by (auto split: prod.splits sum.splits simp: Let_def)

text \<open>
  C6. Every mapping \<^verbatim>\<open>createColumnMapping\<close> emits has a source column that is neither
  calculated nor in the skip-list and a destination column that is not calculated and
  bears the name configured for the source column. The source columns of the emitted
  mappings are, in order, exactly the eligible ones: a column whose destination is missing
  or calculated is dropped and the columns after it are still mapped.
\<close>

theorem createColumnMapping_emits_valid_mappings:
  "(createColumnMapping e config w = (Inr ms, w') \<longrightarrow>
      (\<forall>m \<in> set ms.
          \<not> calculated (sourceColumn m)
          \<and> columnName (sourceColumn m) \<notin> set (skipColumns config)
          \<and> \<not> calculated (destinationColumn m)
          \<and> map_of (columnMappings config) (columnName (sourceColumn m))
              = Some (columnName (destinationColumn m))))
   \<and> map sourceColumn (mapColumns ns config destColumns sourceColumns)
       = filter (eligible config destColumns) sourceColumns"
proof (rule conjI)
  show "createColumnMapping e config w = (Inr ms, w') \<longrightarrow>
      (\<forall>m \<in> set ms.
          \<not> calculated (sourceColumn m)
          \<and> columnName (sourceColumn m) \<notin> set (skipColumns config)
          \<and> \<not> calculated (destinationColumn m)
          \<and> map_of (columnMappings config) (columnName (sourceColumn m))
              = Some (columnName (destinationColumn m)))"
  proof (intro impI ballI)
    fix m
    assume "createColumnMapping e config w = (Inr ms, w')" and "m \<in> set ms"
    with createColumnMapping_result obtain dst src where
      "m \<in> set (mapColumns (numToString e) config dst src)" by blast
    from mapColumns_emitted [OF this]
    show "\<not> calculated (sourceColumn m)
          \<and> columnName (sourceColumn m) \<notin> set (skipColumns config)
          \<and> \<not> calculated (destinationColumn m)
          \<and> map_of (columnMappings config) (columnName (sourceColumn m))
              = Some (columnName (destinationColumn m))"
      by simp
  qed
next
  show "map sourceColumn (mapColumns ns config destColumns sourceColumns)
       = filter (eligible config destColumns) sourceColumns"
    by (rule mapColumns_sources)
qed

lemmas schema_unfold =
  createColumnMapping_def getTableColumns_def stableSort_def compareColumns_def logCall_def
  createTransform_def configuredTransformation_def exSchemaEnv_def exEnv_def exConfig_def exSourceColumns_def
  exDestColumns_def exColumn_def exWorld_def exAmountMapping_def exNotesMapping_def

theorem createColumnMapping_emits_valid_mappings_witness:
  "createColumnMapping exSchemaEnv exConfig exWorld =
     (Inr [exAmountMapping, exNotesMapping],
      \<lparr> netLog = [GetColumns ''doc-s'' ''grid-s'', GetColumns ''doc-d'' ''grid-d''],
        files = [] \<rparr>)
   \<and> \<not> calculated (sourceColumn exNotesMapping)
   \<and> columnName (sourceColumn exNotesMapping) \<notin> set (skipColumns exConfig)
   \<and> \<not> calculated (destinationColumn exNotesMapping)
   \<and> map_of (columnMappings exConfig) (columnName (sourceColumn exNotesMapping))
       = Some (columnName (destinationColumn exNotesMapping))
   \<and> map sourceColumn (mapColumns exampleNumberToString exConfig exDestColumns exSourceColumns)
       = filter (eligible exConfig exDestColumns) exSourceColumns
   \<and> filter (eligible exConfig exDestColumns) exSourceColumns
       = [sourceColumn exAmountMapping, sourceColumn exNotesMapping]"
proof -
  have run: "createColumnMapping exSchemaEnv exConfig exWorld =
     (Inr [exAmountMapping, exNotesMapping],
      \<lparr> netLog = [GetColumns ''doc-s'' ''grid-s'', GetColumns ''doc-d'' ''grid-d''],
        files = [] \<rparr>)"
    by (simp add: schema_unfold)
  have kept: "filter (eligible exConfig exDestColumns) exSourceColumns
       = [sourceColumn exAmountMapping, sourceColumn exNotesMapping]"
    by (simp add: eligible_def schema_unfold)
  note general = createColumnMapping_emits_valid_mappings
    [of exSchemaEnv exConfig exWorld "[exAmountMapping, exNotesMapping]" _
        exampleNumberToString exDestColumns exSourceColumns]
  from general run
  have "\<forall>m \<in> set [exAmountMapping, exNotesMapping].
          \<not> calculated (sourceColumn m)
          \<and> columnName (sourceColumn m) \<notin> set (skipColumns exConfig)
          \<and> \<not> calculated (destinationColumn m)
          \<and> map_of (columnMappings exConfig) (columnName (sourceColumn m))
              = Some (columnName (destinationColumn m))"
    by blast
  then have emitted:
    "\<not> calculated (sourceColumn exNotesMapping)
     \<and> columnName (sourceColumn exNotesMapping) \<notin> set (skipColumns exConfig)
     \<and> \<not> calculated (destinationColumn exNotesMapping)
     \<and> map_of (columnMappings exConfig) (columnName (sourceColumn exNotesMapping))
         = Some (columnName (destinationColumn exNotesMapping))"
    by simp
  have sources:
    "map sourceColumn (mapColumns exampleNumberToString exConfig exDestColumns exSourceColumns)
       = filter (eligible exConfig exDestColumns) exSourceColumns"
    by (rule general [THEN conjunct2])
  from run emitted sources kept show ?thesis by blast
qed

section \<open>Targeted retrieval: theorems\<close>

lemma chunksOf_Nil [simp]: "chunksOf n [] = []"
  by (simp add: chunksOf.simps)

lemma chunksOf_step:
  "i < length xs \<Longrightarrow>
   chunksOf 20 (drop i xs) = slice i (i + 20) xs # chunksOf 20 (drop (i + 20) xs)"
  by (subst chunksOf.simps) (simp add: slice_def add.commute)


lemma getSpecificRowsLoop_chunks:
  "getSpecificRowsLoop e docId tableId rowIds i rows w =
     (rows @ fetchChunks e docId tableId (chunksOf 20 (drop i rowIds)) (netLog w),
      w\<lparr>netLog := netLog w @ map (GetRowsByIds docId tableId) (chunksOf 20 (drop i rowIds))\<rparr>)"
proof (induction e docId tableId rowIds i rows w rule: getSpecificRowsLoop.induct)
  case (1 e docId tableId rowIds i rows w)
  show ?case
  proof (cases "i < length rowIds")
    case False
    then show ?thesis by (subst getSpecificRowsLoop.simps) simp
  next
    case True
    let ?batchIds = "slice i (i + 20) rowIds"
    let ?w' = "logCall (GetRowsByIds docId tableId ?batchIds) w"
    note IH = "1.IH"[OF True refl refl]
    show ?thesis
    proof (cases "rowsByIdsReply e (netLog w) docId tableId ?batchIds")
      case (Threw m)
      with True IH(1)[OF Threw] show ?thesis
        by (subst getSpecificRowsLoop.simps)
           (simp add: chunksOf_step chunkRows_def logCall_def Let_def)
    next
      case (NotOk status statusText errorText)
      with True IH(2)[OF NotOk] show ?thesis
        by (subst getSpecificRowsLoop.simps)
           (simp add: chunksOf_step chunkRows_def logCall_def Let_def)
    next
      case (Replied body)
      show ?thesis
      proof (cases body)
        case None
        with True Replied IH(3)[OF Replied None] show ?thesis
          by (subst getSpecificRowsLoop.simps)
             (simp add: chunksOf_step chunkRows_def logCall_def Let_def)
      next
        case (Some items)
        with True Replied IH(4)[OF Replied Some] show ?thesis
          by (subst getSpecificRowsLoop.simps)
             (simp add: chunksOf_step chunkRows_def logCall_def Let_def)
      qed
    qed
  qed
qed

lemma set_chunksOf: "c \<in> set (chunksOf n xs) \<Longrightarrow> set c \<subseteq> set xs"
proof (induction n xs rule: chunksOf.induct)
  case (1 n xs)
  show ?case
  proof (cases "n = 0 \<or> xs = []")
    case True
    with "1.prems" show ?thesis by (simp add: chunksOf.simps)
  next
    case False
    with "1.prems" have "c = take n xs \<or> c \<in> set (chunksOf n (drop n xs))"
      by (subst (asm) chunksOf.simps) auto
    then show ?thesis
    proof
      assume "c = take n xs"
      then show ?thesis by (auto dest: in_set_takeD)
    next
      assume "c \<in> set (chunksOf n (drop n xs))"
      from "1.IH"[OF False this] show ?thesis by (auto dest: in_set_dropD)
    qed
  qed
qed

lemma fetchChunks_ids:
  "r \<in> set (fetchChunks e docId tableId cs issued) \<Longrightarrow> \<exists>c \<in> set cs. rowId r \<in> set c"
proof (induction cs arbitrary: issued)
  case Nil
  then show ?case by simp
next
  case (Cons c cs)
  then show ?case
    by (auto simp: chunkRows_def split: reply.splits option.splits)
qed

lemma concat_chunksOf: "0 < n \<Longrightarrow> concat (chunksOf n xs) = xs"
proof (induction n xs rule: chunksOf.induct)
  case (1 n xs)
  then show ?case by (subst chunksOf.simps) auto
qed

lemma length_chunksOf: "c \<in> set (chunksOf n xs) \<Longrightarrow> c \<noteq> [] \<and> length c \<le> n"
proof (induction n xs rule: chunksOf.induct)
  case (1 n xs)
  show ?case
  proof (cases "n = 0 \<or> xs = []")
    case True
    with "1.prems" show ?thesis by (simp add: chunksOf.simps)
  next
    case False
    with "1.prems" have "c = take n xs \<or> c \<in> set (chunksOf n (drop n xs))"
      by (subst (asm) chunksOf.simps) auto
    with False "1.IH"[OF False] show ?thesis by auto
  qed
qed

lemma nth_chunksOf:
  "j < length (chunksOf n xs) \<Longrightarrow> chunksOf n xs ! j = take n (drop (j * n) xs)"
proof (induction n xs arbitrary: j rule: chunksOf.induct)
  case (1 n xs)
  show ?case
  proof (cases "n = 0 \<or> xs = []")
    case True
    with "1.prems" show ?thesis by (simp add: chunksOf.simps)
  next
    case False
    then have unfold: "chunksOf n xs = take n xs # chunksOf n (drop n xs)"
      by (subst chunksOf.simps) simp
    show ?thesis
    proof (cases j)
      case 0
      with unfold show ?thesis by simp
    next
      case (Suc k)
      with "1.prems" unfold have "k < length (chunksOf n (drop n xs))" by simp
      from "1.IH"[OF False this] Suc unfold show ?thesis
        by (simp add: add.commute)
    qed
  qed
qed

text \<open>
  C5. Targeted retrieval cuts the requested ids into consecutive chunks of 20 (the last
  one possibly shorter), issues one request per chunk whether or not earlier ones failed,
  and returns, chunk after chunk, the rows of each response that carry an id of that
  chunk; a failed chunk contributes nothing. So every returned row has a requested id, and
  the returned ids may be a strict subset of the requested ones.
\<close>

theorem getSpecificRows_chunked:
  "getSpecificRows e docId tableId rowIds w =
     (fetchChunks e docId tableId (chunksOf 20 rowIds) (netLog w),
      w\<lparr>netLog := netLog w @ map (GetRowsByIds docId tableId) (chunksOf 20 rowIds)\<rparr>)
   \<and> concat (chunksOf 20 rowIds) = rowIds
   \<and> (\<forall>j < length (chunksOf 20 rowIds).
          chunksOf 20 rowIds ! j = take 20 (drop (j * 20) rowIds))
   \<and> (\<forall>r \<in> set (fst (getSpecificRows e docId tableId rowIds w)). rowId r \<in> set rowIds)
   \<and> (\<exists>e' ids. set (map rowId (fst (getSpecificRows e' docId tableId ids w))) \<subset> set ids)"
proof -
  have run: "\<And>e ids. getSpecificRows e docId tableId ids w =
     (fetchChunks e docId tableId (chunksOf 20 ids) (netLog w),
      w\<lparr>netLog := netLog w @ map (GetRowsByIds docId tableId) (chunksOf 20 ids)\<rparr>)"
    using getSpecificRowsLoop_chunks[where i = 0 and rows = "[]"]
    by (simp add: getSpecificRows_def)
  have ids: "\<forall>r \<in> set (fst (getSpecificRows e docId tableId rowIds w)). rowId r \<in> set rowIds"
  proof
    fix r assume "r \<in> set (fst (getSpecificRows e docId tableId rowIds w))"
    then have "r \<in> set (fetchChunks e docId tableId (chunksOf 20 rowIds) (netLog w))"
      by (simp add: run)
    from fetchChunks_ids [OF this] set_chunksOf show "rowId r \<in> set rowIds" by blast
  qed
  have "fst (getSpecificRows exOfflineEnv docId tableId [''i-1''] w) = []"
    by (simp add: run chunksOf.simps chunkRows_def exOfflineEnv_def)
  then have "set (map rowId (fst (getSpecificRows exOfflineEnv docId tableId [''i-1''] w)))
               \<subset> set [''i-1'']"
    by auto
  then have strict:
    "\<exists>e' ids. set (map rowId (fst (getSpecificRows e' docId tableId ids w))) \<subset> set ids"
    by blast
  from run ids strict concat_chunksOf[of 20 rowIds] nth_chunksOf[of _ 20 rowIds]
  show ?thesis by simp
qed

theorem getSpecificRows_chunked_witness:
  "getSpecificRows exRowsEnv ''doc-s'' ''grid-s'' [''i-1'', ''i-2'', ''i-3''] exWorld =
     ([exRow],
      \<lparr> netLog = [GetRowsByIds ''doc-s'' ''grid-s'' [''i-1'', ''i-2'', ''i-3'']],
        files = [] \<rparr>)
   \<and> rowId exRow \<in> set [''i-1'', ''i-2'', ''i-3'']
   \<and> rowId exStrayRow \<notin> set [''i-1'', ''i-2'', ''i-3'']
   \<and> chunksOf 20 exManyIds = [replicate 20 ''i-2'', [''i-1'']]
   \<and> chunksOf 20 exManyIds ! 1 = take 20 (drop (1 * 20) exManyIds)
   \<and> getSpecificRows exFlakyEnv ''doc-s'' ''grid-s'' exManyIds exWorld =
       ([exRow],
        \<lparr> netLog = [GetRowsByIds ''doc-s'' ''grid-s'' (replicate 20 ''i-2''),
                     GetRowsByIds ''doc-s'' ''grid-s'' [''i-1'']],
          files = [] \<rparr>)"
proof -
  note general = getSpecificRows_chunked [of exRowsEnv "''doc-s''" "''grid-s''"
      "[''i-1'', ''i-2'', ''i-3'']" exWorld]
  note flaky = getSpecificRows_chunked [of exFlakyEnv "''doc-s''" "''grid-s''" exManyIds exWorld]
  have small: "chunksOf 20 [''i-1'', ''i-2'', ''i-3''] = [[''i-1'', ''i-2'', ''i-3'']]"
    by (simp add: chunksOf.simps)
  have many: "chunksOf 20 exManyIds = [replicate 20 ''i-2'', [''i-1'']]"
    by (simp add: chunksOf.simps exManyIds_def)
  have first: "getSpecificRows exRowsEnv ''doc-s'' ''grid-s'' [''i-1'', ''i-2'', ''i-3''] exWorld =
     ([exRow],
      \<lparr> netLog = [GetRowsByIds ''doc-s'' ''grid-s'' [''i-1'', ''i-2'', ''i-3'']],
        files = [] \<rparr>)"
    using general
    by (simp add: small chunkRows_def exRowsEnv_def exEnv_def exWorld_def exRow_def
        exStrayRow_def)
  have second: "getSpecificRows exFlakyEnv ''doc-s'' ''grid-s'' exManyIds exWorld =
       ([exRow],
        \<lparr> netLog = [GetRowsByIds ''doc-s'' ''grid-s'' (replicate 20 ''i-2''),
                     GetRowsByIds ''doc-s'' ''grid-s'' [''i-1'']],
          files = [] \<rparr>)"
    using flaky
    by (simp add: many chunkRows_def exFlakyEnv_def exEnv_def exWorld_def exRow_def
        exStrayRow_def)
  from general have "\<forall>r \<in> set (fst (getSpecificRows exRowsEnv ''doc-s'' ''grid-s''
                          [''i-1'', ''i-2'', ''i-3''] exWorld)).
                 rowId r \<in> set [''i-1'', ''i-2'', ''i-3'']"
    by (elim conjE)
  with first have ids: "rowId exRow \<in> set [''i-1'', ''i-2'', ''i-3'']"
    by simp
  have stray: "rowId exStrayRow \<notin> set [''i-1'', ''i-2'', ''i-3'']"
    by (simp add: exStrayRow_def)
  from flaky have positions: "\<forall>j < length (chunksOf 20 exManyIds).
          chunksOf 20 exManyIds ! j = take 20 (drop (j * 20) exManyIds)"
    by (elim conjE)
  have "1 < length (chunksOf 20 exManyIds)"
    by (simp add: many)
  with positions have position:
    "chunksOf 20 exManyIds ! 1 = take 20 (drop (1 * 20) exManyIds)"
    by blast
  from first ids stray many position second show ?thesis by blast
qed

section \<open>Batch insertion: theorems\<close>

lemma map_const_replicate: "map (\<lambda>x. c) xs = replicate (length xs) c"
  by (induction xs) auto

text \<open>
  What a batch insert does in general. A batch insert of K payloads, K at least 1, issues
  one request. When the response carries exactly K identifiers, the result is K success
  entries carrying them in request order, pairwise distinct when the identifiers are. When
  the request is rejected, the response is not \<^verbatim>\<open>ok\<close>, or its identifier list is absent or
  empty, the result is K failure entries sharing one error string. A response carrying
  some identifiers, but not K of them, falls under neither case.
\<close>

lemma insertRowsBatch_all_or_nothing:
  "rowDataArray \<noteq> [] \<longrightarrow>
     snd (insertRowsBatch e config rowDataArray w)
       = logCall (InsertRows (destinationDocId config) (destinationTableId config) rowDataArray) w
     \<and> (\<forall>ids. insertReply e (netLog w) rowDataArray = Replied (Some ids)
               \<and> length ids = length rowDataArray
            \<longrightarrow> fst (insertRowsBatch e config rowDataArray w) = map batchInserted ids
                \<and> length (fst (insertRowsBatch e config rowDataArray w)) = length rowDataArray
                \<and> (distinct ids
                     \<longrightarrow> distinct (map batchRowId (fst (insertRowsBatch e config rowDataArray w)))))
     \<and> ((\<forall>ids. insertReply e (netLog w) rowDataArray = Replied (Some ids) \<longrightarrow> ids = [])
            \<longrightarrow> (\<exists>msg. fst (insertRowsBatch e config rowDataArray w)
                          = replicate (length rowDataArray) (batchFailure msg)))"
proof (intro impI conjI allI)
  assume "rowDataArray \<noteq> []"
  then show "snd (insertRowsBatch e config rowDataArray w)
       = logCall (InsertRows (destinationDocId config) (destinationTableId config) rowDataArray) w"
    by (simp add: insertRowsBatch_def Let_def split: reply.splits option.splits)
next
  fix ids
  assume ne: "rowDataArray \<noteq> []"
    and reply: "insertReply e (netLog w) rowDataArray = Replied (Some ids)
               \<and> length ids = length rowDataArray"
  then have "ids \<noteq> []" by auto
  with ne reply show "fst (insertRowsBatch e config rowDataArray w) = map batchInserted ids"
    by (simp add: insertRowsBatch_def Let_def)
  with reply show "length (fst (insertRowsBatch e config rowDataArray w)) = length rowDataArray"
    by simp
  assume "distinct ids"
  with \<open>fst (insertRowsBatch e config rowDataArray w) = map batchInserted ids\<close>
  show "distinct (map batchRowId (fst (insertRowsBatch e config rowDataArray w)))"
    by (simp add: distinct_map batchInserted_def inj_on_def comp_def)
next
  assume ne: "rowDataArray \<noteq> []"
    and none: "\<forall>ids. insertReply e (netLog w) rowDataArray = Replied (Some ids) \<longrightarrow> ids = []"
  show "\<exists>msg. fst (insertRowsBatch e config rowDataArray w)
                          = replicate (length rowDataArray) (batchFailure msg)"
  proof (cases "insertReply e (netLog w) rowDataArray")
    case (Threw m)
    with ne show ?thesis by (auto simp: insertRowsBatch_def Let_def map_const_replicate)
  next
    case (NotOk status statusText errorText)
    with ne show ?thesis by (auto simp: insertRowsBatch_def Let_def map_const_replicate)
  next
    case (Replied body)
    with ne none show ?thesis
      by (cases body) (auto simp: insertRowsBatch_def Let_def map_const_replicate)
  qed
qed

lemma insertRowsBatch_all_or_nothing_example:
  "exPayloads \<noteq> []
   \<and> insertReply exInsertEnv (netLog exWorld) exPayloads = Replied (Some [''new-1'', ''new-2''])
   \<and> length [''new-1'', ''new-2''] = length exPayloads
   \<and> distinct [''new-1'', ''new-2'']
   \<and> fst (insertRowsBatch exInsertEnv exConfig exPayloads exWorld)
       = [batchInserted ''new-1'', batchInserted ''new-2'']
   \<and> distinct (map batchRowId (fst (insertRowsBatch exInsertEnv exConfig exPayloads exWorld)))
   \<and> insertReply exEnv (netLog exWorld) exPayloads = Replied None
   \<and> (\<exists>msg. fst (insertRowsBatch exEnv exConfig exPayloads exWorld)
               = replicate (length exPayloads) (batchFailure msg))
   \<and> snd (insertRowsBatch exEnv exConfig exPayloads exWorld)
       = logCall (InsertRows ''doc-d'' ''grid-d'' exPayloads) exWorld"
proof -
  have ne: "exPayloads \<noteq> []"
    by (simp add: exPayloads_def)
  have reply:
    "insertReply exInsertEnv (netLog exWorld) exPayloads = Replied (Some [''new-1'', ''new-2''])"
    by (simp add: exInsertEnv_def exEnv_def)
  have len: "length [''new-1'', ''new-2''] = length exPayloads"
    by (simp add: exPayloads_def)
  have dist: "distinct [''new-1'', ''new-2'']"
    by simp
  have none:
    "\<forall>ids. insertReply exEnv (netLog exWorld) exPayloads = Replied (Some ids) \<longrightarrow> ids = []"
    by (simp add: exEnv_def)
  note good = insertRowsBatch_all_or_nothing [of exPayloads exInsertEnv exConfig exWorld]
  note bad = insertRowsBatch_all_or_nothing [of exPayloads exEnv exConfig exWorld]
  from good ne reply len dist
  have inserted: "fst (insertRowsBatch exInsertEnv exConfig exPayloads exWorld)
       = [batchInserted ''new-1'', batchInserted ''new-2'']
     \<and> distinct (map batchRowId (fst (insertRowsBatch exInsertEnv exConfig exPayloads exWorld)))"
    by (simp add: batchInserted_def)
  from bad ne none
  have failed: "(\<exists>msg. fst (insertRowsBatch exEnv exConfig exPayloads exWorld)
               = replicate (length exPayloads) (batchFailure msg))
     \<and> snd (insertRowsBatch exEnv exConfig exPayloads exWorld)
       = logCall (InsertRows ''doc-d'' ''grid-d'' exPayloads) exWorld"
    by (simp add: exConfig_def)
  have absent: "insertReply exEnv (netLog exWorld) exPayloads = Replied None"
    by (simp add: exEnv_def)
  from ne reply len dist inserted absent failed show ?thesis by blast
qed

text \<open>
  C2, at an input where the code departs from it. Two payloads are sent in one request and
  the response is \<^verbatim>\<open>ok\<close> with one identifier only. The success branch maps the identifiers
  received, where the two failure branches map the payloads sent: the call returns one
  success entry, which is neither two success entries nor two failure entries sharing an
  error string, and the second payload has no entry at all.
\<close>

theorem insertRowsBatch_short_reply_one_entry_for_two_payloads:
  "length exPayloads = 2
   \<and> insertReply exShortEnv (netLog exWorld) exPayloads = Replied (Some [''new-1''])
   \<and> insertRowsBatch exShortEnv exConfig exPayloads exWorld
       = ([\<lparr> batchSuccess = True, batchRowId = Some ''new-1'', batchError = None \<rparr>],
          logCall (InsertRows ''doc-d'' ''grid-d'' exPayloads) exWorld)
   \<and> length (fst (insertRowsBatch exShortEnv exConfig exPayloads exWorld)) = 1"
  by (simp add: insertRowsBatch_def batchInserted_def exShortEnv_def exEnv_def exPayloads_def
      exConfig_def)

section \<open>Attachment processing: theorems\<close>

lemma writeFile_files:
  "writeFile e path w = (r, w') \<Longrightarrow> set (files w') \<subseteq> insert path (set (files w))
     \<and> (\<forall>err. r = Inl err \<longrightarrow> files w' = files w)"
  by (auto simp: writeFile_def split: option.splits)

lemma copyFile_files:
  "copyFile e src dst w = (r, w') \<Longrightarrow> set (files w') \<subseteq> insert dst (set (files w))
     \<and> (\<forall>err. r = Inl err \<longrightarrow> files w' = files w)"
  by (auto simp: copyFile_def split: if_splits option.splits)

lemma downloadFile_files:
  assumes "downloadFile e url filename w = (r, w')"
  shows "(\<forall>err. r = Inl err \<longrightarrow> files w' = files w)
         \<and> (\<forall>p. r = Inr p \<longrightarrow> set (files w') \<subseteq> insert p (set (files w)))"
  using assms unfolding downloadFile_def
  by (auto simp: logCall_def writeFile_def
      split: reply.splits jsval.splits if_splits option.splits)

lemma downloadAll_files:
  "downloadAll e attachments i downloadedFiles w = (r, downloaded, w') \<Longrightarrow>
   set (files w) \<subseteq> base \<union> set downloadedFiles \<Longrightarrow>
   set (files w') \<subseteq> base \<union> set downloaded"
proof (induction attachments arbitrary: i downloadedFiles w)
  case Nil
  then show ?case by simp
next
  case (Cons attachment rest)
  let ?fileName = "if truthy (getProp attachment ''name'') then getProp attachment ''name''
             else JStr (''attachment_'' @ numToString e (real (i + 1)))"
  obtain out w1 where dl: "downloadFile e (getProp attachment ''url'') ?fileName w = (out, w1)"
    by (cases "downloadFile e (getProp attachment ''url'') ?fileName w")
  show ?case
  proof (cases out)
    case (Inl err)
    with dl Cons.prems downloadFile_files[OF dl] show ?thesis by (auto simp: Let_def)
  next
    case (Inr p)
    with dl Cons.prems(1)
    have next_call: "downloadAll e rest (i + 1) (downloadedFiles @ [p]) w1 = (r, downloaded, w')"
      by (simp add: Let_def)
    from downloadFile_files[OF dl] Inr Cons.prems(2)
    have "set (files w1) \<subseteq> base \<union> set (downloadedFiles @ [p])" by auto
    from Cons.IH[OF next_call this] show ?thesis .
  qed
qed

lemma convertToPdf_files:
  assumes "convertToPdf e filePath w = (r, w')"
  shows "(\<forall>err. r = Inl err \<longrightarrow> files w' = files w)
         \<and> (\<forall>p. r = Inr p \<longrightarrow> set (files w') \<subseteq> insert p (set (files w)))"
  using assms unfolding convertToPdf_def imageToPdf_def createPlaceholderPdf_def
  by (auto simp: Let_def writeFile_def copyFile_def
      split: if_splits prod.splits sum.splits option.splits)

lemma convertAll_files:
  "convertAll e paths convertedPdfs w = (r, converted, w') \<Longrightarrow>
   set (files w) \<subseteq> base \<union> set convertedPdfs \<Longrightarrow>
   set (files w') \<subseteq> base \<union> set converted"
proof (induction paths arbitrary: convertedPdfs w)
  case Nil
  then show ?case by simp
next
  case (Cons filePath rest)
  obtain out w1 where cv: "convertToPdf e filePath w = (out, w1)"
    by (cases "convertToPdf e filePath w")
  show ?case
  proof (cases out)
    case (Inl err)
    with cv Cons.prems convertToPdf_files[OF cv] show ?thesis by auto
  next
    case (Inr p)
    with cv Cons.prems(1)
    have next_call: "convertAll e rest (convertedPdfs @ [p]) w1 = (r, converted, w')"
      by simp
    from convertToPdf_files[OF cv] Inr Cons.prems(2)
    have "set (files w1) \<subseteq> base \<union> set (convertedPdfs @ [p])" by auto
    from Cons.IH[OF next_call this] show ?thesis .
  qed
qed

lemma mergePdfs_files:
  "mergePdfs e pdfPaths outputPath w = (r, w') \<Longrightarrow>
   set (files w') \<subseteq> insert outputPath (set (files w))"
  unfolding mergePdfs_def
  by (auto simp: writeFile_def copyFile_def
      split: list.splits if_splits prod.splits sum.splits option.splits)

lemma cleanup_files: "set (files (cleanup filePaths w)) = set (files w) - set filePaths"
  by (auto simp: cleanup_def)

text \<open>
  Whatever step fails, the only path \<^verbatim>\<open>processAttachments\<close> can leave behind is the final
  scratch document: every download and every conversion is gone when the error is
  rethrown, and no staged document has been added.
\<close>

lemma processAttachments_failure_files:
  assumes failed: "processAttachments e attachments baseFileName w = (Inl err, w')"
  shows "set (files w') \<subseteq> insert (pathJoin tempDir (baseFileName @ ''.pdf'')) (set (files w))"
proof -
  let ?final = "pathJoin tempDir (baseFileName @ ''.pdf'')"
  let ?staged = "pathJoin uploadDir (baseFileName @ ''.pdf'')"
  from failed have ne: "attachments \<noteq> []"
    by (auto simp: processAttachments_def)
  obtain r1 dl w1 where d: "downloadAll e attachments 0 [] w = (r1, dl, w1)"
    by (cases "downloadAll e attachments 0 [] w") auto
  from downloadAll_files[OF d, of "set (files w)"]
  have f1: "set (files w1) \<subseteq> set (files w) \<union> set dl" by simp
  show ?thesis
  proof (cases r1)
    case (Some e1)
    with failed ne d have "w' = cleanup dl w1"
      by (simp add: processAttachments_def)
    with f1 show ?thesis by (auto simp: cleanup_files)
  next
    case None
    obtain r2 cv w2 where c: "convertAll e dl [] w1 = (r2, cv, w2)"
      by (cases "convertAll e dl [] w1") auto
    from convertAll_files[OF c, of "set (files w) \<union> set dl"] f1
    have f2: "set (files w2) \<subseteq> set (files w) \<union> set dl \<union> set cv" by simp
    show ?thesis
    proof (cases r2)
      case (Some e2)
      with failed ne d None c have "w' = cleanup (dl @ cv) w2"
        by (simp add: processAttachments_def)
      with f2 show ?thesis by (auto simp: cleanup_files)
    next
      case no_error: None
      let ?combine = "(case cv of
                        [single] \<Rightarrow>
                          (if single \<noteq> ?final then copyFile e single ?final w2
                           else (Inr (), w2))
                      | _ \<Rightarrow>
                          (case mergePdfs e cv ?final w2 of
                             (Inl err, w') \<Rightarrow> (Inl err, w')
                           | (Inr out, w') \<Rightarrow> (Inr (), w')))"
      obtain r3 w3 where m: "?combine = (r3, w3)"
        by (cases ?combine)
      have f3: "set (files w3) \<subseteq> insert ?final (set (files w2))"
      proof (cases "\<exists>single. cv = [single]")
        case True
        then obtain single where "cv = [single]" by blast
        with m copyFile_files[of e single ?final w2 r3 w3] show ?thesis
          by (auto split: if_splits)
      next
        case False
        obtain r w'' where mp: "mergePdfs e cv ?final w2 = (r, w'')"
          by (cases "mergePdfs e cv ?final w2")
        with False m have "w3 = w''"
          by (auto split: list.splits sum.splits)
        with mergePdfs_files[OF mp] show ?thesis by simp
      qed
      show ?thesis
      proof (cases r3)
        case (Inl e3)
        with failed ne d None c no_error m have "w' = cleanup (dl @ cv) w3"
          by (simp add: processAttachments_def Let_def)
        with f2 f3 show ?thesis by (auto simp: cleanup_files)
      next
        case (Inr u)
        obtain r4 w4 where s: "copyFile e ?final ?staged w3 = (r4, w4)"
          by (cases "copyFile e ?final ?staged w3")
        with failed ne d None c no_error m Inr
        have "(\<exists>e4. r4 = Inl e4) \<and> w' = cleanup (dl @ cv) w4"
          by (cases r4) (simp_all add: processAttachments_def Let_def)
        with copyFile_files[OF s] f2 f3 show ?thesis
          by (auto simp: cleanup_files)
      qed
    qed
  qed
qed

lemma processAttachments_failure_no_staged_file:
  assumes "processAttachments e attachments baseFileName w = (Inl err, w')"
    and "pathJoin uploadDir (baseFileName @ ''.pdf'') \<in> set (files w')"
  shows "pathJoin uploadDir (baseFileName @ ''.pdf'') \<in> set (files w)"
  using processAttachments_failure_files [OF assms(1)] assms(2)
  by (auto simp: pathJoin_def tempDir_def uploadDir_def)

text \<open>
  C3 at a failing input. One attachment named \<^verbatim>\<open>my receipt.png\<close> is downloaded and
  converted; the base name is \<^verbatim>\<open>my_receipt\<close>, so the final document is a copy under a
  new scratch path; the copy into the staging directory then fails. The \<^verbatim>\<open>catch\<close> block
  removes the download and the conversion, and the final scratch document
  \<^verbatim>\<open>temp/my_receipt.pdf\<close> is still on disk when the error is rethrown. No staged file
  exists.
\<close>

theorem processAttachments_leaves_final_scratch_document:
  "getBaseFileName exFileRow [exReceiptScan] = Inr ''my_receipt''
   \<and> processAttachments exStagingFailsEnv [exReceiptScan] ''my_receipt'' exWorld =
       (Inl (Error (''ENOSPC: no space left on device, copyfile ''
                      @ quoted ''temp/my_receipt.pdf'' @ '' -> ''
                      @ quoted ''upload/my_receipt.pdf'')),
        \<lparr> netLog = [Download (JStr ''https://x/r.png'')],
          files = [''temp/my_receipt.pdf''] \<rparr>)"
  by code_simp

section \<open>Orchestration: theorems\<close>

lemma prepareRow_id:
  "prepareRow e config sourceRow mappings w = (Inr p, w') \<Longrightarrow>
   preparedSourceRowId p = rowId sourceRow"
  unfolding prepareRow_def
  by (auto split: option.splits if_splits sum.splits prod.splits simp: Let_def)

lemma preparePhase_ids:
  "preparePhase e config mappings sourceRows preparedRows allResults w = (prepared, results, w')
   \<Longrightarrow> mset (map preparedSourceRowId prepared) + mset (map sourceRowId results)
       = mset (map preparedSourceRowId preparedRows) + mset (map sourceRowId allResults)
         + mset (map rowId sourceRows)"
proof (induction sourceRows arbitrary: preparedRows allResults w)
  case Nil
  then show ?case by simp
next
  case (Cons sourceRow rest)
  obtain outcome w1 where step: "prepareRow e config sourceRow mappings w = (outcome, w1)"
    by (cases "prepareRow e config sourceRow mappings w")
  show ?case
  proof (cases outcome)
    case (Inr p)
    with step Cons.prems
    have "preparePhase e config mappings rest (preparedRows @ [p]) allResults w1
            = (prepared, results, w')" by simp
    from Cons.IH[OF this] prepareRow_id[OF step[unfolded Inr]] show ?thesis by simp
  next
    case (Inl err)
    with step Cons.prems
    have "preparePhase e config mappings rest preparedRows
            (allResults @ [failedResult (rowId sourceRow) [] (Some (message err))]) w1
            = (prepared, results, w')" by simp
    from Cons.IH[OF this] show ?thesis by (simp add: failedResult_def)
  qed
qed

lemma splitBatches_chunks:
  assumes "0 < n"
  shows "splitBatches n xs i batches = Some (batches @ chunksOf n (drop i xs))"
proof (induction "length xs - i" arbitrary: i batches rule: less_induct)
  case less
  show ?case
  proof (cases "i < length xs")
    case False
    then show ?thesis by (subst splitBatches.simps) simp
  next
    case True
    with assms have "length xs - (i + n) < length xs - i" by simp
    from less[OF this]
    have "splitBatches n xs (i + n) (batches @ [slice i (i + n) xs])
            = Some ((batches @ [slice i (i + n) xs]) @ chunksOf n (drop (i + n) xs))" .
    moreover from True assms
    have "chunksOf n (drop i xs) = slice i (i + n) xs # chunksOf n (drop (i + n) xs)"
      by (subst chunksOf.simps) (simp add: slice_def add.commute)
    ultimately show ?thesis using True
      by (subst splitBatches.simps) simp
  qed
qed

lemma mapBatchResults_complete:
  "length batch \<le> length batchResults \<Longrightarrow>
   \<exists>results w'. mapBatchResults batch batchResults allResults w = (None, results, w')
      \<and> map sourceRowId results = map sourceRowId allResults @ map preparedSourceRowId batch"
proof (induction batch batchResults allResults w rule: mapBatchResults.induct)
  case (1 batchResults allResults w)
  then show ?case by simp
next
  case (2 preparedRow rest allResults w)
  then show ?case by simp
next
  case (3 preparedRow rest batchResult others allResults w)
  then show ?case by (auto simp: failedResult_def)
qed

lemma insertRowsBatch_length:
  assumes "\<forall>issued payloads ids.
             insertReply e issued payloads = Replied (Some ids)
             \<longrightarrow> ids = [] \<or> length payloads \<le> length ids"
  shows "length rowDataArray \<le> length (fst (insertRowsBatch e config rowDataArray w))"
proof (cases "insertReply e (netLog w) rowDataArray")
  case (Threw m)
  then show ?thesis by (simp add: insertRowsBatch_def Let_def)
next
  case (NotOk status statusText errorText)
  then show ?thesis by (simp add: insertRowsBatch_def Let_def)
next
  case (Replied body)
  show ?thesis
  proof (cases body)
    case None
    with Replied show ?thesis by (simp add: insertRowsBatch_def Let_def)
  next
    case (Some ids)
    with Replied assms have "ids = [] \<or> length rowDataArray \<le> length ids" by blast
    with Replied Some show ?thesis by (auto simp: insertRowsBatch_def Let_def)
  qed
qed

lemma insertBatches_ids:
  assumes "\<forall>issued payloads ids.
             insertReply e issued payloads = Replied (Some ids)
             \<longrightarrow> ids = [] \<or> length payloads \<le> length ids"
  shows "\<exists>results w'. insertBatches e config batches allResults w = (results, w')
      \<and> map sourceRowId results
          = map sourceRowId allResults @ map preparedSourceRowId (concat batches)"
proof (induction batches arbitrary: allResults w)
  case Nil
  then show ?case by simp
next
  case (Cons batch rest)
  obtain batchResults w1 where
    sent: "insertRowsBatch e config (map destinationData batch) w = (batchResults, w1)"
    by (cases "insertRowsBatch e config (map destinationData batch) w")
  with insertRowsBatch_length[OF assms, of "map destinationData batch" config w]
  have "length batch \<le> length batchResults" by simp
  from mapBatchResults_complete[OF this, of allResults w1]
  obtain results w2 where
    mapped: "mapBatchResults batch batchResults allResults w1 = (None, results, w2)"
    and ids: "map sourceRowId results = map sourceRowId allResults @ map preparedSourceRowId batch"
    by blast
  from Cons.IH[of results w2] obtain final w3 where
    "insertBatches e config rest results w2 = (final, w3)"
    "map sourceRowId final = map sourceRowId results @ map preparedSourceRowId (concat rest)"
    by blast
  with sent mapped ids show ?case by simp
qed

text \<open>
  With a positive batch size, and a remote that never answers a batch with fewer
  identifiers than rows (an empty or absent list aside), the two phases return exactly one
  result per source row.
\<close>

lemma processRows_one_result_per_row:
  assumes size: "0 < insertBatchSize config"
    and replies: "\<forall>issued payloads ids.
             insertReply e issued payloads = Replied (Some ids)
             \<longrightarrow> ids = [] \<or> length payloads \<le> length ids"
  shows "\<exists>results w'. processRows e config mappings sourceRows w = Some (results, w')
           \<and> mset (map sourceRowId results) = mset (map rowId sourceRows)
           \<and> length results = length sourceRows"
proof -
  obtain prepared results0 w1 where
    phase1: "preparePhase e config mappings sourceRows [] [] w = (prepared, results0, w1)"
    by (cases "preparePhase e config mappings sourceRows [] [] w") auto
  from preparePhase_ids[OF phase1]
  have ids1: "mset (map preparedSourceRowId prepared) + mset (map sourceRowId results0)
                = mset (map rowId sourceRows)" by simp
  from insertBatches_ids[OF replies, of config "chunksOf (insertBatchSize config) prepared"
      results0 w1]
  obtain final w2 where
    phase2: "insertBatches e config (chunksOf (insertBatchSize config) prepared) results0 w1
               = (final, w2)"
    and ids2: "map sourceRowId final = map sourceRowId results0
                @ map preparedSourceRowId (concat (chunksOf (insertBatchSize config) prepared))"
    by blast
  from ids2 size have ids2': "map sourceRowId final
      = map sourceRowId results0 @ map preparedSourceRowId prepared"
    by (simp add: concat_chunksOf)
  have split: "splitBatches (insertBatchSize config) prepared 0 []
                 = Some (chunksOf (insertBatchSize config) prepared)"
    using splitBatches_chunks[OF size, of prepared 0 "[]"] by simp
  show ?thesis
  proof (cases "prepared = []")
    case True
    with phase1 have run: "processRows e config mappings sourceRows w = Some (results0, w1)"
      by (simp add: processRows_def insertPhase_def)
    from ids1 True have m: "mset (map sourceRowId results0) = mset (map rowId sourceRows)"
      by simp
    from arg_cong[OF m, of size] have "length results0 = length sourceRows"
      by simp
    with run m show ?thesis by simp
  next
    case False
    with phase1 split phase2
    have run: "processRows e config mappings sourceRows w = Some (final, w2)"
      by (simp add: processRows_def insertPhase_def)
    from ids1 ids2' have m: "mset (map sourceRowId final) = mset (map rowId sourceRows)"
      by (simp add: add.commute)
    from arg_cong[OF m, of size] have "length final = length sourceRows"
      by simp
    with run m show ?thesis by simp
  qed
qed

text \<open>
  C1 at a failing input. The source table holds two rows and both prepare; the one batch
  of two is answered with a single identifier. Row \<^verbatim>\<open>i-1\<close> is pushed as a success, the
  read of the missing second batch result throws, and the \<^verbatim>\<open>catch\<close> block pushes both
  rows as failed: three results for two rows, \<^verbatim>\<open>i-1\<close> both succeeded and failed.
\<close>

theorem migrate_short_id_list_three_results_for_two_rows:
  "migrate exShortRunEnv exConfig exWorld =
     Some
       (Inr [\<lparr> success = True, sourceRowId = ''i-1'', destinationRowId = Some ''new-1'',
               processedFiles = [], error = None \<rparr>,
             \<lparr> success = False, sourceRowId = ''i-1'', destinationRowId = None,
               processedFiles = [],
               error = Some ''Cannot read properties of undefined (reading 'success')'' \<rparr>,
             \<lparr> success = False, sourceRowId = ''i-2'', destinationRowId = None,
               processedFiles = [],
               error = Some ''Cannot read properties of undefined (reading 'success')'' \<rparr>],
        \<lparr> netLog =
            [GetTable ''doc-s'' ''grid-s'', GetTable ''doc-d'' ''grid-d'',
             PutObject ''Migration/connection-test-0.txt'',
             GetColumns ''doc-s'' ''grid-s'', GetColumns ''doc-d'' ''grid-d'',
             GetRows ''doc-s'' ''grid-s'' 100 None,
             InsertRows ''doc-d'' ''grid-d''
               [[(''c-amount-d'', JNum 42.5)], [(''c-amount-d'', JNum 7)]]],
          files = [''failed-rows.json''] \<rparr>)"
  by code_simp

text \<open>
  C7. When the ledger's list of failed row ids is empty (or absent, which the code reads
  as empty), \<^verbatim>\<open>recover\<close> returns the empty result list and leaves the world as it was: no
  request is added to the log, so no connection test, schema fetch, row retrieval or insert
  has taken place.
\<close>

theorem recover_empty_ledger:
  assumes "readLedger e
             (case failedRowsPath of
                Some p \<Rightarrow> if p \<noteq> [] then p else ''failed-rows.json''
              | None \<Rightarrow> ''failed-rows.json'') = Ledger ids"
    and "ids = None \<or> ids = Some []"
  shows "recover e config failedRowsPath w = Some (Inr [], w)"
  using assms by (auto simp: recover_def)

theorem recover_empty_ledger_witness:
  "readLedger exEmptyLedgerEnv
     (case None of
        Some p \<Rightarrow> if p \<noteq> [] then p else ''failed-rows.json''
      | None \<Rightarrow> ''failed-rows.json'') = Ledger (Some [])
   \<and> recover exEmptyLedgerEnv exConfig None exWorld = Some (Inr [], exWorld)
   \<and> netLog exWorld = []
   \<and> recover exLedgerEnv exConfig None exWorld =
       Some
         (Inl (Error ''No column mappings found. Check your configuration.''),
          \<lparr> netLog =
              [GetTable ''doc-s'' ''grid-s'', GetTable ''doc-d'' ''grid-d'',
               PutObject ''Migration/connection-test-0.txt'',
               GetColumns ''doc-s'' ''grid-s'', GetColumns ''doc-d'' ''grid-d''],
            files = [] \<rparr>)"
proof -
  have ledger: "readLedger exEmptyLedgerEnv
     (case None of
        Some p \<Rightarrow> if p \<noteq> [] then p else ''failed-rows.json''
      | None \<Rightarrow> ''failed-rows.json'') = Ledger (Some [])"
    by (simp add: exEmptyLedgerEnv_def exEnv_def)
  have empty: "Some [] = None \<or> Some [] = Some ([] :: string list)"
    by simp
  have contrast: "recover exLedgerEnv exConfig None exWorld =
       Some
         (Inl (Error ''No column mappings found. Check your configuration.''),
          \<lparr> netLog =
              [GetTable ''doc-s'' ''grid-s'', GetTable ''doc-d'' ''grid-d'',
               PutObject ''Migration/connection-test-0.txt'',
               GetColumns ''doc-s'' ''grid-s'', GetColumns ''doc-d'' ''grid-d''],
            files = [] \<rparr>)"
    by code_simp
  from recover_empty_ledger [OF ledger empty, of exConfig exWorld] ledger contrast
  show ?thesis by (simp add: exWorld_def)
qed

end
